theory Spec2Isabelle
  imports Main "HOL-Library.Word"
begin

unbundle bit_operations_syntax

section \<open>The dependency updater \<^verbatim>\<open>src/build_tools/update_deps.py\<close>\<close>

text \<open>
  The script downloads a fixed set of archives into a cache directory, verifies
  them by size and SHA-256, extracts the ninja binary and runs two external
  provisioning commands. Everything it does is an effect on the file system,
  the network, the terminal or a child process, so the embedding threads an
  explicit \<open>world\<close> through every function and returns a Python exception as
  the left summand of the result.

  What Python takes from its libraries and from the operating system is a
  field of the environment record \<open>env\<close>: the SHA-256 function of
  \<^verbatim>\<open>hashlib\<close>, the HTTP transport of \<^verbatim>\<open>requests\<close>, the archive reader of
  \<^verbatim>\<open>zipfile\<close>, child processes, the platform identity, the terminal and the
  clock. Every theorem below holds for every environment.

  The file system is a map from paths to files and directories. It has no
  symbolic links and no access rights that could refuse a call, and nothing but
  the script and the child processes it waits for changes it during a run.
  Every call to the file system, the network or a child process is recorded in
  a trace, so that a statement such as ``no request is made'' is a statement
  about the trace.
\<close>

subsection \<open>Data\<close>

type_synonym byte = "8 word"
type_synonym bytes = "byte list"

text \<open>An absolute path is the list of its components below the root.\<close>

type_synonym path = "string list"

text \<open>
  \<^verbatim>\<open>@dataclasses.dataclass class ArchiveInfo\<close> with the fields \<^verbatim>\<open>url\<close>,
  \<^verbatim>\<open>size\<close> and \<^verbatim>\<open>sha256\<close>. The field \<^verbatim>\<open>size\<close> is named \<open>size_bytes\<close>
  here, because \<open>size\<close> is a constant of HOL.
\<close>

record ArchiveInfo =
  url :: string
  size_bytes :: int
  sha256 :: string

text \<open>
  A file-system node. A regular file has its bytes and its permission bits; a
  directory has neither in this model.
\<close>

datatype node = File bytes nat | Dir

record stat_result =
  st_size :: int
  st_mode :: nat

text \<open>The \<^verbatim>\<open>RuntimeError\<close>s raised by \<^verbatim>\<open>download\<close>, with the values their text shows.\<close>

datatype integrity =
    SizeMismatch string int int
  | Sha256Mismatch string string string

datatype error =
    FileNotFoundError path
  | IsADirectoryError path
  | NotADirectoryError path
  | FileExistsError path
  | ClosedFileError path
  | RequestException string
  | BadZipFile path
  | KeyError string
  | RuntimeError integrity
  | CalledProcessError int string
  | ChildProcessError "string list"

text \<open>
  What \<^verbatim>\<open>requests.get(url, stream=True)\<close> hands to the loop: the chunks that
  \<^verbatim>\<open>iter_content\<close> yields, and the description of the exception the
  iterator raises after them when the transport breaks (\<open>None\<close> when the
  stream ends normally). A failure of the transport is a \<open>RequestException\<close>.
\<close>

datatype response = Response "bytes list" "string option"

text \<open>
  The lines the script prints, one constructor for each \<^verbatim>\<open>print\<close> of the
  source, with the values the f-string interpolates:
  \<^item> \<open>MsgVerificationFailed path\<close>: \<^verbatim>\<open>dryrun: Verification failed. removing {path}\<close>
  \<^item> \<open>MsgDownload url path\<close>: \<^verbatim>\<open>Download {archive.url} to {path}\<close>
  \<^item> \<open>MsgRmtree dest\<close>: \<^verbatim>\<open>dryrun: shutil.rmtree(r'{dest}')\<close>
  \<^item> \<open>MsgExtracting exe src dest\<close>: \<^verbatim>\<open>dryrun: Extracting {exe} from {src} into {dest}\<close>
  \<^item> \<open>MsgSubprocessRun command\<close>: \<^verbatim>\<open>dryrun: subprocess.run({command}, shell=True, check=True)\<close>
  \<^item> \<open>MsgExecCommand args cwd\<close>: \<^verbatim>\<open>dryrun: exec_command({args}, cwd={ABS_MOZC_SRC_DIR})\<close>
\<close>

datatype message =
    MsgVerificationFailed path
  | MsgDownload string path
  | MsgRmtree path
  | MsgExtracting string path path
  | MsgSubprocessRun string
  | MsgExecCommand "string list" path

text \<open>
  Standard output: a line written by \<^verbatim>\<open>print\<close>, or the raw text written by
  \<^verbatim>\<open>sys.stdout.write\<close> in the progress printer.
\<close>

datatype written = Line message | Raw string

text \<open>
  The calls the script makes to the file system, the network and child
  processes, one event for each call, in the order they are made.
\<close>

datatype event =
    PathExists path
  | PathStat path
  | OpenRead path
  | PathUnlink path
  | Mkdir path
  | HttpGet string
  | OpenWrite path
  | ZipOpen path
  | ZipExtract string path
  | Chmod path nat
  | SubprocessRun string
  | Popen "string list" path

text \<open>
  The environment of one run. \<open>src_dir\<close> is \<^verbatim>\<open>ABS_MOZC_SRC_DIR\<close>, the parent
  of the directory of the script. \<open>dir_stat\<close> is what \<^verbatim>\<open>stat\<close> reports for a
  directory and \<open>create_mode\<close> the permission bits of a newly created file.
  \<open>shell\<close> and \<open>spawn\<close> give the exit code of a child process and the file
  system it leaves behind; \<open>spawn\<close> gives \<open>None\<close> for the exit code when the
  program cannot be started.
\<close>

record env =
  os_name :: string
  uname_sysname :: string
  src_dir :: path
  isatty :: bool
  columns :: nat
  clock :: "nat \<Rightarrow> int"
  sha256_hex :: "bytes \<Rightarrow> string"
  http :: "string \<Rightarrow> nat \<Rightarrow> string + response"
  unzip :: "bytes \<Rightarrow> (string \<rightharpoonup> bytes) option"
  dir_stat :: stat_result
  create_mode :: nat
  shell :: "string \<Rightarrow> (path \<rightharpoonup> node) \<Rightarrow> int \<times> (path \<rightharpoonup> node)"
  spawn :: "string list \<Rightarrow> path \<Rightarrow> (path \<rightharpoonup> node) \<Rightarrow> int option \<times> (path \<rightharpoonup> node)"

text \<open>
  The state a run changes: the file system, what was written to standard
  output, the calls made so far, and the number of times the clock was read.
\<close>

record world =
  fs :: "path \<rightharpoonup> node"
  stdout :: "written list"
  trace :: "event list"
  ticks :: nat

type_synonym 'a io = "world \<Rightarrow> (error + 'a) \<times> world"

subsection \<open>Sequencing\<close>

definition io_return :: "'a \<Rightarrow> 'a io" where
  "io_return x w = (Inr x, w)"

definition io_raise :: "error \<Rightarrow> 'a io" where
  "io_raise e w = (Inl e, w)"

text \<open>Run \<open>m\<close>, then \<open>f\<close> on its value; an exception of \<open>m\<close> skips \<open>f\<close>.\<close>

definition io_bind :: "'a io \<Rightarrow> ('a \<Rightarrow> 'b io) \<Rightarrow> 'b io" where
  "io_bind m f w = (case m w of (Inl e, w') \<Rightarrow> (Inl e, w') | (Inr x, w') \<Rightarrow> f x w')"

text \<open>
  The body of a \<^verbatim>\<open>with\<close> statement followed by the \<^verbatim>\<open>__exit__\<close> of its
  context manager, which runs whether or not the body raised and lets the
  exception of the body through.
\<close>

definition io_finally :: "'a io \<Rightarrow> unit io \<Rightarrow> 'a io" where
  "io_finally m c w =
     (case m w of (r, w') \<Rightarrow>
        (case c w' of (Inl e, w'') \<Rightarrow> (Inl e, w'') | (Inr u, w'') \<Rightarrow> (r, w'')))"

text \<open>\<^verbatim>\<open>for x in xs: f(x)\<close>\<close>

fun for_each :: "('a \<Rightarrow> unit io) \<Rightarrow> 'a list \<Rightarrow> unit io" where
  "for_each f [] = io_return ()"
| "for_each f (x # xs) = io_bind (f x) (\<lambda>u. for_each f xs)"

definition emit :: "event \<Rightarrow> world \<Rightarrow> world" where
  "emit e w = w\<lparr>trace := trace w @ [e]\<rparr>"

text \<open>The calls made, and the output written, between two states of a run.\<close>

definition new_events :: "world \<Rightarrow> world \<Rightarrow> event list" where
  "new_events w w' = drop (length (trace w)) (trace w')"

definition new_output :: "world \<Rightarrow> world \<Rightarrow> written list" where
  "new_output w w' = drop (length (stdout w)) (stdout w')"

subsection \<open>The library calls of the script\<close>

text \<open>The root directory always exists.\<close>

definition node_at :: "(path \<rightharpoonup> node) \<Rightarrow> path \<Rightarrow> node option" where
  "node_at f p = (if p = [] then Some Dir else f p)"

text \<open>
  \<^verbatim>\<open>PurePath.joinpath\<close> with one name that holds no separator: an empty name
  and the name \<^verbatim>\<open>.\<close> add no component. A name \<^verbatim>\<open>..\<close> is kept as a
  component, as pathlib keeps it. The file system below looks a path up by its
  components and does not resolve \<^verbatim>\<open>..\<close> to the parent as an operating
  system does, so the model says nothing true about an archive whose URL ends
  in \<^verbatim>\<open>/..\<close>; no regular file lies at such a path, and the three
  registered archives have ordinary names.
\<close>

definition joinpath :: "path \<Rightarrow> string \<Rightarrow> path" where
  "joinpath p name = (if name = [] \<or> name = ''.'' then p else p @ [name])"

text \<open>\<^verbatim>\<open>print(msg)\<close> and \<^verbatim>\<open>sys.stdout.write(s)\<close>\<close>

definition print :: "message \<Rightarrow> unit io" where
  "print msg w = (Inr (), w\<lparr>stdout := stdout w @ [Line msg]\<rparr>)"

definition stdout_write :: "string \<Rightarrow> unit io" where
  "stdout_write s w = (Inr (), w\<lparr>stdout := stdout w @ [Raw s]\<rparr>)"

text \<open>\<^verbatim>\<open>time.time_ns()\<close>: the next reading of the clock.\<close>

definition time_ns :: "env \<Rightarrow> int io" where
  "time_ns E w = (Inr (clock E (ticks w)), w\<lparr>ticks := Suc (ticks w)\<rparr>)"

text \<open>\<^verbatim>\<open>path.exists()\<close>\<close>

definition path_exists :: "path \<Rightarrow> bool io" where
  "path_exists p w = (Inr (node_at (fs w) p \<noteq> None), emit (PathExists p) w)"

text \<open>
  \<^verbatim>\<open>path.stat()\<close>. The mode of a regular file is its permission bits with
  \<^verbatim>\<open>S_IFREG\<close> (\<^verbatim>\<open>0o100000\<close>).
\<close>

definition S_IFREG :: nat where
  "S_IFREG = 32768"

definition S_IXUSR :: nat where
  "S_IXUSR = 64"

definition path_stat :: "env \<Rightarrow> path \<Rightarrow> stat_result io" where
  "path_stat E p w =
     (case node_at (fs w) p of
        None \<Rightarrow> Inl (FileNotFoundError p)
      | Some (File c m) \<Rightarrow> Inr \<lparr>st_size = int (length c), st_mode = S_IFREG OR m\<rparr>
      | Some Dir \<Rightarrow> Inr (dir_stat E),
      emit (PathStat p) w)"

text \<open>\<^verbatim>\<open>open(path, 'rb')\<close> followed by reading the whole file.\<close>

definition open_rb :: "path \<Rightarrow> bytes io" where
  "open_rb p w =
     (case node_at (fs w) p of
        None \<Rightarrow> Inl (FileNotFoundError p)
      | Some (File c m) \<Rightarrow> Inr c
      | Some Dir \<Rightarrow> Inl (IsADirectoryError p),
      emit (OpenRead p) w)"

text \<open>\<^verbatim>\<open>path.unlink()\<close>\<close>

definition path_unlink :: "path \<Rightarrow> unit io" where
  "path_unlink p w =
     (case node_at (fs w) p of
        None \<Rightarrow> (Inl (FileNotFoundError p), emit (PathUnlink p) w)
      | Some Dir \<Rightarrow> (Inl (IsADirectoryError p), emit (PathUnlink p) w)
      | Some (File c m) \<Rightarrow> (Inr (), (emit (PathUnlink p) w)\<lparr>fs := (fs w)(p := None)\<rparr>))"

text \<open>\<^verbatim>\<open>os.mkdir(p)\<close> on the file system alone.\<close>

definition os_mkdir :: "path \<Rightarrow> (path \<rightharpoonup> node) \<Rightarrow> error + (path \<rightharpoonup> node)" where
  "os_mkdir p f =
     (if node_at f p \<noteq> None then Inl (FileExistsError p)
      else (case node_at f (butlast p) of
              None \<Rightarrow> Inl (FileNotFoundError p)
            | Some (File c m) \<Rightarrow> Inl (NotADirectoryError p)
            | Some Dir \<Rightarrow> Inr (f(p \<mapsto> Dir))))"

text \<open>
  \<^verbatim>\<open>Path.mkdir(parents=True, exist_ok=True)\<close> as pathlib does it: try
  \<^verbatim>\<open>os.mkdir\<close>; when the parent is missing, make the parent in the same way
  and try again; any other failure is ignored when the path is a directory.
\<close>

function mkdir_parents :: "path \<Rightarrow> (path \<rightharpoonup> node) \<Rightarrow> error + (path \<rightharpoonup> node)" where
  "mkdir_parents p f =
     (case os_mkdir p f of
        Inr f' \<Rightarrow> Inr f'
      | Inl (FileNotFoundError q) \<Rightarrow>
          (if p = [] then Inl (FileNotFoundError q)
           else (case mkdir_parents (butlast p) f of
                   Inl e \<Rightarrow> Inl e
                 | Inr f1 \<Rightarrow>
                     (case os_mkdir p f1 of
                        Inr f2 \<Rightarrow> Inr f2
                      | Inl e \<Rightarrow> if node_at f1 p = Some Dir then Inr f1 else Inl e)))
      | Inl e \<Rightarrow> if node_at f p = Some Dir then Inr f else Inl e)"
  by pat_completeness auto
termination
  by (relation "measure (\<lambda>(p, f). length p)") auto

declare mkdir_parents.simps [simp del]

definition path_mkdir :: "path \<Rightarrow> unit io" where
  "path_mkdir p w =
     (case mkdir_parents p (fs w) of
        Inl e \<Rightarrow> (Inl e, emit (Mkdir p) w)
      | Inr f' \<Rightarrow> (Inr (), (emit (Mkdir p) w)\<lparr>fs := f'\<rparr>))"

text \<open>
  \<^verbatim>\<open>open(path, 'wb')\<close> on the file system alone: an existing file is
  truncated and keeps its permission bits, a missing one is created empty.
\<close>

definition create_file :: "env \<Rightarrow> path \<Rightarrow> (path \<rightharpoonup> node) \<Rightarrow> error + (path \<rightharpoonup> node)" where
  "create_file E p f =
     (case node_at f p of
        Some Dir \<Rightarrow> Inl (IsADirectoryError p)
      | Some (File c m) \<Rightarrow> Inr (f(p \<mapsto> File [] m))
      | None \<Rightarrow>
          (case node_at f (butlast p) of
             None \<Rightarrow> Inl (FileNotFoundError p)
           | Some (File c m) \<Rightarrow> Inl (NotADirectoryError p)
           | Some Dir \<Rightarrow> Inr (f(p \<mapsto> File [] (create_mode E)))))"

definition open_wb :: "env \<Rightarrow> path \<Rightarrow> unit io" where
  "open_wb E p w =
     (case create_file E p (fs w) of
        Inl e \<Rightarrow> (Inl e, emit (OpenWrite p) w)
      | Inr f' \<Rightarrow> (Inr (), (emit (OpenWrite p) w)\<lparr>fs := f'\<rparr>))"

text \<open>
  \<^verbatim>\<open>f.write(chunk)\<close> on the file opened at \<open>p\<close>: the bytes are appended. The
  file was opened by the same run, so the other branch is never taken; it is an
  error rather than a silent success.
\<close>

definition file_write :: "path \<Rightarrow> bytes \<Rightarrow> unit io" where
  "file_write p chunk w =
     (case fs w p of
        Some (File c m) \<Rightarrow> (Inr (), w\<lparr>fs := (fs w)(p \<mapsto> File (c @ chunk) m)\<rparr>)
      | _ \<Rightarrow> (Inl (ClosedFileError p), w))"

text \<open>\<^verbatim>\<open>requests.get(url, stream=True, timeout=TIMEOUT)\<close>\<close>

definition requests_get :: "env \<Rightarrow> string \<Rightarrow> nat \<Rightarrow> response io" where
  "requests_get E u t w =
     (case http E u t of Inl s \<Rightarrow> Inl (RequestException s) | Inr r \<Rightarrow> Inr r,
      emit (HttpGet u) w)"

text \<open>
  \<^verbatim>\<open>zipfile.ZipFile(src)\<close>: the members of the archive, by name.
\<close>

definition zip_open :: "env \<Rightarrow> path \<Rightarrow> (string \<rightharpoonup> bytes) io" where
  "zip_open E src w =
     (case node_at (fs w) src of
        None \<Rightarrow> Inl (FileNotFoundError src)
      | Some Dir \<Rightarrow> Inl (IsADirectoryError src)
      | Some (File c m) \<Rightarrow>
          (case unzip E c of None \<Rightarrow> Inl (BadZipFile src) | Some members \<Rightarrow> Inr members),
      emit (ZipOpen src) w)"

text \<open>
  \<^verbatim>\<open>z.extract(member, path=dest)\<close>: a missing member is a \<^verbatim>\<open>KeyError\<close>;
  the destination directory is made when it does not exist; the member is
  written to \<^verbatim>\<open>dest/member\<close>, over a file of that name.
\<close>

definition extract_member ::
  "env \<Rightarrow> (string \<rightharpoonup> bytes) \<Rightarrow> string \<Rightarrow> path \<Rightarrow> (path \<rightharpoonup> node) \<Rightarrow> error + (path \<rightharpoonup> node)" where
  "extract_member E members name dest f =
     (case members name of
        None \<Rightarrow> Inl (KeyError name)
      | Some content \<Rightarrow>
          (case (if node_at f dest = None then mkdir_parents dest f else Inr f) of
             Inl e \<Rightarrow> Inl e
           | Inr f1 \<Rightarrow>
               (case create_file E (joinpath dest name) f1 of
                  Inl e \<Rightarrow> Inl e
                | Inr f2 \<Rightarrow>
                    (case f2 (joinpath dest name) of
                       Some (File c m) \<Rightarrow> Inr (f2(joinpath dest name \<mapsto> File content m))
                     | _ \<Rightarrow> Inl (ClosedFileError (joinpath dest name))))))"

definition zip_extract :: "env \<Rightarrow> (string \<rightharpoonup> bytes) \<Rightarrow> string \<Rightarrow> path \<Rightarrow> unit io" where
  "zip_extract E members name dest w =
     (case extract_member E members name dest (fs w) of
        Inl e \<Rightarrow> (Inl e, emit (ZipExtract name dest) w)
      | Inr f' \<Rightarrow> (Inr (), (emit (ZipExtract name dest) w)\<lparr>fs := f'\<rparr>))"

text \<open>\<^verbatim>\<open>path.chmod(mode)\<close>: only the permission bits of \<open>mode\<close> are used.\<close>

definition path_chmod :: "path \<Rightarrow> nat \<Rightarrow> unit io" where
  "path_chmod p mode w =
     (case node_at (fs w) p of
        None \<Rightarrow> (Inl (FileNotFoundError p), emit (Chmod p mode) w)
      | Some Dir \<Rightarrow> (Inr (), emit (Chmod p mode) w)
      | Some (File c m) \<Rightarrow>
          (Inr (), (emit (Chmod p mode) w)\<lparr>fs := (fs w)(p \<mapsto> File c (mode AND 4095))\<rparr>))"

text \<open>
  \<^verbatim>\<open>subprocess.run(command, shell=True, check=True)\<close>: a non-zero exit code
  is a \<^verbatim>\<open>CalledProcessError\<close>.
\<close>

definition subprocess_run :: "env \<Rightarrow> string \<Rightarrow> unit io" where
  "subprocess_run E command w =
     (case shell E command (fs w) of
        (code, f') \<Rightarrow>
          (if code \<noteq> 0 then Inl (CalledProcessError code command) else Inr (),
           (emit (SubprocessRun command) w)\<lparr>fs := f'\<rparr>))"

text \<open>
  \<^verbatim>\<open>subprocess.Popen(args, stdout=subprocess.PIPE, shell=False, cwd=cwd)\<close>
  with \<^verbatim>\<open>communicate()\<close> and \<^verbatim>\<open>wait()\<close>: the exit code. A program
  that cannot be started makes \<^verbatim>\<open>Popen\<close> raise \<^verbatim>\<open>FileNotFoundError\<close>,
  here with the name of the program.
\<close>

definition popen_wait :: "env \<Rightarrow> string list \<Rightarrow> path \<Rightarrow> int io" where
  "popen_wait E args cwd w =
     (case spawn E args cwd (fs w) of
        (None, f') \<Rightarrow> (Inl (FileNotFoundError (take 1 args)), emit (Popen args cwd) w)
      | (Some code, f') \<Rightarrow> (Inr code, (emit (Popen args cwd) w)\<lparr>fs := f'\<rparr>))"

subsection \<open>Strings\<close>

text \<open>\<^verbatim>\<open>s.split(sep)\<close> for a separator of one character: never the empty list.\<close>

fun split_on :: "char \<Rightarrow> string \<Rightarrow> string list" where
  "split_on sep [] = [[]]"
| "split_on sep (c # cs) =
     (if c = sep then [] # split_on sep cs
      else (case split_on sep cs of [] \<Rightarrow> [[c]] | s # ss \<Rightarrow> (c # s) # ss))"

text \<open>\<^verbatim>\<open>sep.join(xs)\<close>\<close>

fun join_with :: "string \<Rightarrow> string list \<Rightarrow> string" where
  "join_with sep [] = []"
| "join_with sep [x] = x"
| "join_with sep (x # y # ys) = x @ sep @ join_with sep (y # ys)"

text \<open>\<^verbatim>\<open>str(n)\<close> for an integer.\<close>

fun str_nat :: "nat \<Rightarrow> string" where
  "str_nat n =
     (if n < 10 then [char_of (48 + n)]
      else str_nat (n div 10) @ [char_of (48 + n mod 10)])"

declare str_nat.simps [simp del]

definition str_int :: "int \<Rightarrow> string" where
  "str_int i = (if i < 0 then CHR ''-'' # str_nat (nat (- i)) else str_nat (nat i))"

subsection \<open>ArchiveInfo and the registry\<close>

text \<open>\<^verbatim>\<open>return self.url.split('/')[-1]\<close>\<close>

definition filename :: "ArchiveInfo \<Rightarrow> string" where
  "filename archive = last (split_on CHR ''/'' (url archive))"

text \<open>
  \<^verbatim>\<open>def __hash__(self): return hash(self.sha256)\<close>. The hash of a string is a
  function of the interpreter, taken as a parameter.
\<close>

definition archive_hash :: "(string \<Rightarrow> int) \<Rightarrow> ArchiveInfo \<Rightarrow> int" where
  "archive_hash str_hash archive = str_hash (sha256 archive)"

text \<open>
  The \<^verbatim>\<open>__eq__\<close> that \<^verbatim>\<open>@dataclasses.dataclass\<close> generates (the class gives
  none of its own): the tuples of all fields are compared.
\<close>

definition archive_eq :: "ArchiveInfo \<Rightarrow> ArchiveInfo \<Rightarrow> bool" where
  "archive_eq a b \<longleftrightarrow> (url a, size_bytes a, sha256 a) = (url b, size_bytes b, sha256 b)"

text \<open>\<^verbatim>\<open>x in xs\<close> for a list: some element is equal to \<open>x\<close> by \<^verbatim>\<open>__eq__\<close>.\<close>

definition contains :: "ArchiveInfo \<Rightarrow> ArchiveInfo list \<Rightarrow> bool" where
  "contains x xs = list_ex (archive_eq x) xs"

definition QT6 :: ArchiveInfo where
  "QT6 = \<lparr>url = ''https://download.qt.io/archive/qt/6.8/6.8.0/submodules/qtbase-everywhere-src-6.8.0.tar.xz'',
          size_bytes = 49819628,
          sha256 = ''1bad481710aa27f872de6c9f72651f89a6107f0077003d0ebfcc9fd15cba3c75''\<rparr>"

definition NINJA_MAC :: ArchiveInfo where
  "NINJA_MAC = \<lparr>url = ''https://github.com/ninja-build/ninja/releases/download/v1.11.0/ninja-mac.zip'',
                size_bytes = 277298,
                sha256 = ''21915277db59756bfc61f6f281c1f5e3897760b63776fd3d360f77dd7364137f''\<rparr>"

definition NINJA_WIN :: ArchiveInfo where
  "NINJA_WIN = \<lparr>url = ''https://github.com/ninja-build/ninja/releases/download/v1.11.0/ninja-win.zip'',
                size_bytes = 285411,
                sha256 = ''d0ee3da143211aa447e750085876c9b9d7bcdd637ab5b2c5b41349c617f22f3b''\<rparr>"

definition ABS_MOZC_SRC_DIR :: "env \<Rightarrow> path" where
  "ABS_MOZC_SRC_DIR E = src_dir E"

definition ABS_THIRD_PARTY_DIR :: "env \<Rightarrow> path" where
  "ABS_THIRD_PARTY_DIR E = joinpath (ABS_MOZC_SRC_DIR E) ''third_party''"

definition CACHE_DIR :: "env \<Rightarrow> path" where
  "CACHE_DIR E = joinpath (ABS_MOZC_SRC_DIR E) ''third_party_cache''"

definition TIMEOUT :: nat where
  "TIMEOUT = 600"

subsection \<open>Platform\<close>

text \<open>\<^verbatim>\<open>return os.name == 'nt'\<close>\<close>

definition is_windows :: "env \<Rightarrow> bool" where
  "is_windows E \<longleftrightarrow> os_name E = ''nt''"

text \<open>\<^verbatim>\<open>return os.name == 'posix' and os.uname()[0] == 'Darwin'\<close>\<close>

definition is_mac :: "env \<Rightarrow> bool" where
  "is_mac E \<longleftrightarrow> os_name E = ''posix'' \<and> uname_sysname E = ''Darwin''"

subsection \<open>get_sha256\<close>

text \<open>
  Both branches of the source, \<^verbatim>\<open>hashlib.file_digest\<close> and the fallback that
  reads the whole file, give the SHA-256 of the bytes of the file.
\<close>

definition get_sha256 :: "env \<Rightarrow> path \<Rightarrow> string io" where
  "get_sha256 E path = io_bind (open_rb path) (\<lambda>content. io_return (sha256_hex E content))"

subsection \<open>ProgressPrinter\<close>

text \<open>
  The object that \<^verbatim>\<open>__enter__\<close> returns: \<^verbatim>\<open>NoOpImpl\<close>, or \<^verbatim>\<open>Impl\<close> with
  its \<^verbatim>\<open>last_output_time_ns\<close>.
\<close>

datatype printer = NoOpImpl | Impl int

definition ProgressPrinter_enter :: "env \<Rightarrow> printer io" where
  "ProgressPrinter_enter E =
     (if \<not> isatty E then io_return NoOpImpl
      else io_bind (time_ns E) (\<lambda>t. io_return (Impl t)))"

fun print_line :: "env \<Rightarrow> printer \<Rightarrow> string \<Rightarrow> printer io" where
  "print_line E NoOpImpl msg = io_return NoOpImpl"
| "print_line E (Impl last_output_time_ns) msg =
     (let colmuns = columns E in
      io_bind (time_ns E) (\<lambda>now.
        if now - last_output_time_ns < 25000000 then io_return (Impl last_output_time_ns)
        else
          (let msg1 = msg @ replicate (colmuns - length msg) CHR '' '';
               msg2 = take colmuns msg1 @ [CHR 0x0D]
           in io_bind (stdout_write msg2) (\<lambda>u. io_return (Impl now)))))"

text \<open>\<^verbatim>\<open>__exit__\<close>: \<^verbatim>\<open>self.cleaner\<close> is set exactly when standard output is a terminal.\<close>

definition ProgressPrinter_exit :: "env \<Rightarrow> unit io" where
  "ProgressPrinter_exit E =
     (if isatty E then stdout_write (replicate (columns E) CHR '' '' @ [CHR 0x0D])
      else io_return ())"

subsection \<open>download\<close>

text \<open>\<^verbatim>\<open>CACHE_DIR.joinpath(archive.filename)\<close>: where an archive lies in the cache.\<close>

definition cache_path :: "env \<Rightarrow> ArchiveInfo \<Rightarrow> path" where
  "cache_path E archive = joinpath (CACHE_DIR E) (filename archive)"

text \<open>
  The loop of lines 154 to 158. The hasher is the bytes it was fed: its
  \<^verbatim>\<open>hexdigest()\<close> is the SHA-256 of their concatenation.
\<close>

fun save_chunks ::
  "env \<Rightarrow> ArchiveInfo \<Rightarrow> path \<Rightarrow> bytes list \<Rightarrow> int \<times> bytes \<times> printer \<Rightarrow> (int \<times> bytes \<times> printer) io" where
  "save_chunks E archive path [] st = io_return st"
| "save_chunks E archive path (chunk # rest) (saved, hasher, printer) =
     io_bind (file_write path chunk) (\<lambda>u.
       (let hasher' = hasher @ chunk;
            saved' = saved + int (length chunk)
        in io_bind
             (print_line E printer
                (filename archive @ '': '' @ str_int saved' @ ''/'' @ str_int (size_bytes archive)))
             (\<lambda>printer'. save_chunks E archive path rest (saved', hasher', printer'))))"

text \<open>Lines 149 to 158: the three nested \<^verbatim>\<open>with\<close> statements.\<close>

definition receive :: "env \<Rightarrow> ArchiveInfo \<Rightarrow> path \<Rightarrow> (int \<times> bytes) io" where
  "receive E archive path =
     io_bind (requests_get E (url archive) TIMEOUT) (\<lambda>r.
       case r of Response chunks fault \<Rightarrow>
         io_bind (ProgressPrinter_enter E) (\<lambda>printer.
           io_finally
             (io_bind (open_wb E path) (\<lambda>u.
                io_bind (save_chunks E archive path chunks (0, [], printer)) (\<lambda>(saved, hasher, printer').
                  case fault of
                    None \<Rightarrow> io_return (saved, hasher)
                  | Some s \<Rightarrow> io_raise (RequestException s))))
             (ProgressPrinter_exit E)))"

text \<open>Lines 159 to 169: the size check, then the hash check.\<close>

definition verify :: "env \<Rightarrow> ArchiveInfo \<Rightarrow> int \<Rightarrow> bytes \<Rightarrow> unit io" where
  "verify E archive saved hasher =
     (if saved \<noteq> size_bytes archive
      then io_raise (RuntimeError (SizeMismatch (filename archive) (size_bytes archive) saved))
      else
        (let actual_sha256 = sha256_hex E hasher in
         if actual_sha256 \<noteq> sha256 archive
         then io_raise (RuntimeError (Sha256Mismatch (filename archive) (sha256 archive) actual_sha256))
         else io_return ()))"

text \<open>Lines 144 to 169: what \<^verbatim>\<open>download\<close> does when the cache check did not return.\<close>

definition fetch :: "env \<Rightarrow> ArchiveInfo \<Rightarrow> bool \<Rightarrow> path \<Rightarrow> unit io" where
  "fetch E archive dryrun path =
     (if dryrun then print (MsgDownload (url archive) path)
      else
        io_bind (path_mkdir (CACHE_DIR E)) (\<lambda>u.
          io_bind (receive E archive path) (\<lambda>(saved, hasher).
            verify E archive saved hasher)))"

text \<open>
  Lines 130 to 146. The \<^verbatim>\<open>and\<close> of the cache check evaluates
  \<^verbatim>\<open>get_sha256(path)\<close> only when the sizes are equal.
\<close>

definition download :: "env \<Rightarrow> ArchiveInfo \<Rightarrow> bool \<Rightarrow> unit io" where
  "download E archive dryrun =
     (let path = cache_path E archive in
      io_bind (path_exists path) (\<lambda>ex.
        if ex then
          io_bind
            (io_bind (path_stat E path) (\<lambda>st.
               if st_size st = size_bytes archive
               then io_bind (get_sha256 E path) (\<lambda>h. io_return (h = sha256 archive))
               else io_return False))
            (\<lambda>hit.
               if hit then io_return ()
               else
                 io_bind (if dryrun then print (MsgVerificationFailed path) else path_unlink path)
                   (\<lambda>u. fetch E archive dryrun path))
        else fetch E archive dryrun path))"

subsection \<open>extract_ninja\<close>

definition extract_ninja :: "env \<Rightarrow> bool \<Rightarrow> unit io" where
  "extract_ninja E dryrun =
     (let dest = joinpath (ABS_THIRD_PARTY_DIR E) ''ninja'' in
      case (if is_mac E then Some (NINJA_MAC, ''ninja'')
            else if is_windows E then Some (NINJA_WIN, ''ninja.exe'')
            else None) of
        None \<Rightarrow> io_return ()
      | Some (archive, exe) \<Rightarrow>
          (let src = cache_path E archive in
           if dryrun then
             io_bind (path_exists dest) (\<lambda>ex.
               io_bind (if ex then print (MsgRmtree dest) else io_return ()) (\<lambda>u.
                 print (MsgExtracting exe src dest)))
           else
             io_bind (zip_open E src) (\<lambda>z.
               io_bind (zip_extract E z exe dest) (\<lambda>u.
                 if is_mac E then
                   (let ninja = joinpath dest exe in
                    io_bind (path_stat E ninja) (\<lambda>st.
                      path_chmod ninja (st_mode st OR S_IXUSR)))
                 else io_return ()))))"

subsection \<open>The external commands\<close>

definition update_submodules :: "env \<Rightarrow> bool \<Rightarrow> unit io" where
  "update_submodules E dryrun =
     (let command = join_with '' '' [''git'', ''submodule'', ''update'', ''--init'', ''--recursive''] in
      if dryrun then print (MsgSubprocessRun command)
      else subprocess_run E command)"

definition exec_command :: "env \<Rightarrow> string list \<Rightarrow> path \<Rightarrow> unit io" where
  "exec_command E args cwd =
     io_bind (popen_wait E args cwd) (\<lambda>exitcode.
       if exitcode \<noteq> 0 then io_raise (ChildProcessError args) else io_return ())"

definition restore_dotnet_tools :: "env \<Rightarrow> bool \<Rightarrow> unit io" where
  "restore_dotnet_tools E dryrun =
     (let args = [''dotnet'', ''tool'', ''restore''] in
      if dryrun then print (MsgExecCommand args (ABS_MOZC_SRC_DIR E))
      else exec_command E args (ABS_MOZC_SRC_DIR E))"

subsection \<open>main\<close>

text \<open>The parsed command line: six flags, each false unless given.\<close>

record flags =
  dryrun :: bool
  noninja :: bool
  noqt :: bool
  nowix :: bool
  nosubmodules :: bool
  cache_only :: bool

text \<open>Lines 322 to 329: the archives to download, in order.\<close>

definition select_archives :: "env \<Rightarrow> flags \<Rightarrow> ArchiveInfo list" where
  "select_archives E args =
     (if \<not> noqt args \<and> (is_windows E \<or> is_mac E) then [QT6] else []) @
     (if \<not> noninja args then
        (if is_mac E then [NINJA_MAC] else if is_windows E then [NINJA_WIN] else [])
      else [])"

definition main :: "env \<Rightarrow> flags \<Rightarrow> unit io" where
  "main E args =
     (let archives = select_archives E args in
      io_bind (for_each (\<lambda>archive. download E archive (dryrun args)) archives) (\<lambda>u.
        if cache_only args then io_return ()
        else
          io_bind (if \<not> nowix args \<and> is_windows E then restore_dotnet_tools E (dryrun args)
                   else io_return ()) (\<lambda>u.
            io_bind (if contains NINJA_WIN archives \<or> contains NINJA_MAC archives
                     then extract_ninja E (dryrun args)
                     else io_return ()) (\<lambda>u.
              if \<not> nosubmodules args then update_submodules E (dryrun args)
              else io_return ()))))"

section \<open>Vocabulary of the properties\<close>

text \<open>The output between two states is raw text of the progress printer only.\<close>

definition raw_output :: "world \<Rightarrow> world \<Rightarrow> bool" where
  "raw_output w w' \<longleftrightarrow> (\<exists>ss. stdout w' = stdout w @ map Raw ss)"

text \<open>The two errors that \<^verbatim>\<open>download\<close> raises itself.\<close>

fun integrity_error :: "error \<Rightarrow> bool" where
  "integrity_error (RuntimeError ie) = True"
| "integrity_error e = False"

section \<open>An environment and worlds for concrete runs\<close>

text \<open>
  The theorems hold for every environment. Where one is run on a concrete
  input, the environment is this one: a stand-in for SHA-256 that tells one
  byte string from all others, the source directory \<^verbatim>\<open>/mozc/src\<close>, no
  terminal, child processes that succeed and change nothing, and a platform and
  a network given by the caller.
\<close>

definition toy_sha256 :: "bytes \<Rightarrow> string" where
  "toy_sha256 bs = (if bs = [1, 2, 3] then ''good'' else ''bad'')"

definition example_env ::
  "string \<Rightarrow> string \<Rightarrow> (string \<Rightarrow> nat \<Rightarrow> string + response) \<Rightarrow> env" where
  "example_env name sysname net =
     \<lparr>os_name = name, uname_sysname = sysname, src_dir = [''mozc'', ''src''],
      isatty = False, columns = 80, clock = (\<lambda>n. 0), sha256_hex = toy_sha256,
      http = net, unzip = (\<lambda>bs. if bs = [7, 7] then Some [''ninja'' \<mapsto> [9]] else None),
      dir_stat = \<lparr>st_size = 4096, st_mode = 16877\<rparr>, create_mode = 420,
      shell = (\<lambda>command f. (0, f)), spawn = (\<lambda>args cwd f. (Some 0, f))\<rparr>"

definition example_world :: "(path \<rightharpoonup> node) \<Rightarrow> world" where
  "example_world f = \<lparr>fs = f, stdout = [], trace = [], ticks = 0\<rparr>"

text \<open>A network that cannot be reached, and one that serves a fixed list of chunks.\<close>

definition no_network :: "string \<Rightarrow> nat \<Rightarrow> string + response" where
  "no_network u t = Inl ''unreachable''"

definition serving :: "bytes list \<Rightarrow> string \<Rightarrow> nat \<Rightarrow> string + response" where
  "serving chunks u t = Inr (Response chunks None)"


text \<open>The archive of the scenarios of the specification, three bytes long.\<close>

definition FOO :: ArchiveInfo where
  "FOO = \<lparr>url = ''https://example.org/foo-1.0.zip'', size_bytes = 3, sha256 = ''good''\<rparr>"

definition CACHE :: path where
  "CACHE = [''mozc'', ''src'', ''third_party_cache'']"

definition FOO_path :: path where
  "FOO_path = [''mozc'', ''src'', ''third_party_cache'', ''foo-1.0.zip'']"

text \<open>The Windows ninja archive as another server would offer it.\<close>

definition MIRROR :: ArchiveInfo where
  "MIRROR = NINJA_WIN\<lparr>url := ''https://mirror.example/ninja-win.zip''\<rparr>"

text \<open>
  A macOS checkout whose \<^verbatim>\<open>third_party/ninja\<close> holds a file of an earlier
  version, with the ninja archive in the cache.
\<close>

definition NINJA_DEST :: path where
  "NINJA_DEST = [''mozc'', ''src'', ''third_party'', ''ninja'']"

definition NINJA_MAC_path :: path where
  "NINJA_MAC_path = [''mozc'', ''src'', ''third_party_cache'', ''ninja-mac.zip'']"

definition used_checkout :: "path \<rightharpoonup> node" where
  "used_checkout =
     [CACHE \<mapsto> Dir,
      NINJA_MAC_path \<mapsto> File [7, 7] 420,
      NINJA_DEST \<mapsto> Dir,
      NINJA_DEST @ [''ninja-1.10.2.txt''] \<mapsto> File [5] 420]"

text \<open>
  The calls and the messages of the steps that follow the downloads: the
  restore of the .NET tools, the extraction of ninja, the update of the
  submodules.
\<close>

fun provisioning_event :: "event \<Rightarrow> bool" where
  "provisioning_event (Popen args cwd) = True"
| "provisioning_event (SubprocessRun command) = True"
| "provisioning_event (ZipOpen src) = True"
| "provisioning_event (ZipExtract name dest) = True"
| "provisioning_event (Chmod p mode) = True"
| "provisioning_event e = False"

fun provisioning_output :: "written \<Rightarrow> bool" where
  "provisioning_output (Line (MsgExecCommand args cwd)) = True"
| "provisioning_output (Line (MsgRmtree dest)) = True"
| "provisioning_output (Line (MsgExtracting exe src dest)) = True"
| "provisioning_output (Line (MsgSubprocessRun command)) = True"
| "provisioning_output x = False"

text \<open>Between two states, nothing of those steps was called or printed.\<close>

definition downloads_only :: "world \<Rightarrow> world \<Rightarrow> bool" where
  "downloads_only w w' \<longleftrightarrow>
     (\<exists>es. trace w' = trace w @ es \<and> (\<forall>e \<in> set es. \<not> provisioning_event e)) \<and>
     (\<exists>xs. stdout w' = stdout w @ xs \<and> (\<forall>x \<in> set xs. \<not> provisioning_output x))"

text \<open>\<^verbatim>\<open>--dryrun\<close> alone.\<close>

definition dryrun_flags :: flags where
  "dryrun_flags = \<lparr>dryrun = True, noninja = False, noqt = False, nowix = False,
                     nosubmodules = False, cache_only = False\<rparr>"

text \<open>
  \<^verbatim>\<open>--dryrun --cache_only\<close>, and \<^verbatim>\<open>--noqt --noninja --cache_only\<close>, which
  selects no archive.
\<close>

definition cache_only_dry_flags :: flags where
  "cache_only_dry_flags = \<lparr>dryrun = True, noninja = False, noqt = False, nowix = False,
                             nosubmodules = False, cache_only = True\<rparr>"

definition cache_only_bare_flags :: flags where
  "cache_only_bare_flags = \<lparr>dryrun = False, noninja = True, noqt = True, nowix = False,
                              nosubmodules = False, cache_only = True\<rparr>"

text \<open>The calls that only read the file system.\<close>

fun read_only_event :: "event \<Rightarrow> bool" where
  "read_only_event (PathExists p) = True"
| "read_only_event (PathStat p) = True"
| "read_only_event (OpenRead p) = True"
| "read_only_event e = False"

text \<open>
  The plan of a run as the specification words it (sections 4.2 to 4.5), to be
  compared with what a dry run prints. An action is a step the specification
  names: the removal of a stale cache entry, the download of an archive, the
  restore of the secondary toolchain, the removal of the extraction
  destination, the extraction of the tool, the synchronisation of the
  submodules.
\<close>

datatype action =
    RemoveStale path
  | Fetch string path
  | RestoreTools "string list" path
  | RemoveDestination path
  | ExtractTool string path path
  | SyncSubmodules string

text \<open>The message that reports an action.\<close>

fun announce :: "action \<Rightarrow> message" where
  "announce (RemoveStale p) = MsgVerificationFailed p"
| "announce (Fetch u p) = MsgDownload u p"
| "announce (RestoreTools args cwd) = MsgExecCommand args cwd"
| "announce (RemoveDestination dest) = MsgRmtree dest"
| "announce (ExtractTool exe src dest) = MsgExtracting exe src dest"
| "announce (SyncSubmodules command) = MsgSubprocessRun command"

text \<open>
  Section 3 of the specification: a cache entry is valid when the file exists,
  its size matches and its hash matches.
\<close>

definition spec_cache_valid :: "env \<Rightarrow> (path \<rightharpoonup> node) \<Rightarrow> ArchiveInfo \<Rightarrow> bool" where
  "spec_cache_valid E f archive =
     (case node_at f (cache_path E archive) of
        Some (File c m) \<Rightarrow> int (length c) = size_bytes archive \<and> sha256_hex E c = sha256 archive
      | _ \<Rightarrow> False)"

text \<open>
  Section 4.2: nothing for a valid entry; otherwise the removal of the entry
  when one exists, then the download.
\<close>

definition spec_plan_download :: "env \<Rightarrow> (path \<rightharpoonup> node) \<Rightarrow> ArchiveInfo \<Rightarrow> action list" where
  "spec_plan_download E f archive =
     (if spec_cache_valid E f archive then []
      else (if node_at f (cache_path E archive) \<noteq> None
            then [RemoveStale (cache_path E archive)] else []) @
           [Fetch (url archive) (cache_path E archive)])"

text \<open>
  Section 4.5, steps 3 to 7: the downloads of the selected archives; then,
  unless cache-only, the restore on Windows unless suppressed, the extraction
  when a ninja archive was selected (with the removal of an existing
  destination, section 4.3), and the submodules unless suppressed.
\<close>

definition spec_plan :: "env \<Rightarrow> flags \<Rightarrow> (path \<rightharpoonup> node) \<Rightarrow> action list" where
  "spec_plan E args f =
     concat (map (spec_plan_download E f) (select_archives E args)) @
     (if cache_only args then []
      else
        (if \<not> nowix args \<and> is_windows E
         then [RestoreTools [''dotnet'', ''tool'', ''restore''] (ABS_MOZC_SRC_DIR E)] else []) @
        (if \<not> noninja args \<and> (is_mac E \<or> is_windows E)
         then (if node_at f (joinpath (ABS_THIRD_PARTY_DIR E) ''ninja'') \<noteq> None
               then [RemoveDestination (joinpath (ABS_THIRD_PARTY_DIR E) ''ninja'')] else []) @
              [if is_mac E
               then ExtractTool ''ninja'' (cache_path E NINJA_MAC)
                      (joinpath (ABS_THIRD_PARTY_DIR E) ''ninja'')
               else ExtractTool ''ninja.exe'' (cache_path E NINJA_WIN)
                      (joinpath (ABS_THIRD_PARTY_DIR E) ''ninja'')]
         else []) @
        (if \<not> nosubmodules args
         then [SyncSubmodules ''git submodule update --init --recursive''] else []))"

text \<open>
  Between two states only messages were printed and only reading calls were
  made: the file system and the clock are as before.
\<close>

definition reports :: "world \<Rightarrow> world \<Rightarrow> message list \<Rightarrow> bool" where
  "reports w w' ms \<longleftrightarrow>
     fs w' = fs w \<and> ticks w' = ticks w \<and> stdout w' = stdout w @ map Line ms \<and>
     (\<exists>es. trace w' = trace w @ es \<and> (\<forall>e \<in> set es. read_only_event e))"

definition QT6_path :: path where
  "QT6_path = [''mozc'', ''src'', ''third_party_cache'', ''qtbase-everywhere-src-6.8.0.tar.xz'']"

definition NINJA_WIN_path :: path where
  "NINJA_WIN_path = [''mozc'', ''src'', ''third_party_cache'', ''ninja-win.zip'']"

section \<open>Properties of the model\<close>

subsection \<open>Sequencing and the trace\<close>

lemma io_bind_return: "io_bind m io_return = m"
  by (rule ext) (simp add: io_bind_def io_return_def split: prod.splits sum.splits)

lemma io_bind_Inr: "m w = (Inr x, w1) \<Longrightarrow> io_bind m f w = f x w1"
  by (simp add: io_bind_def)

lemma io_bind_Inl: "m w = (Inl e, w1) \<Longrightarrow> io_bind m f w = (Inl e, w1)"
  by (simp add: io_bind_def)

lemma new_events_append: "trace w' = trace w @ es \<Longrightarrow> new_events w w' = es"
  by (simp add: new_events_def)

lemma new_output_append: "stdout w' = stdout w @ os \<Longrightarrow> new_output w w' = os"
  by (simp add: new_output_def)

subsection \<open>Paths and directories\<close>

lemma CACHE_DIR_nonempty: "CACHE_DIR E \<noteq> []"
  by (simp add: CACHE_DIR_def joinpath_def)

lemma joinpath_nonempty: "p \<noteq> [] \<Longrightarrow> joinpath p name \<noteq> []"
  by (simp add: joinpath_def)

lemma cache_path_nonempty: "cache_path E a \<noteq> []"
  by (simp add: cache_path_def joinpath_nonempty CACHE_DIR_nonempty)

lemma node_at_nonempty: "p \<noteq> [] \<Longrightarrow> node_at f p = f p"
  by (simp add: node_at_def)

lemma mkdir_parents_existing: "node_at f p = Some Dir \<Longrightarrow> mkdir_parents p f = Inr f"
  by (subst mkdir_parents.simps) (simp add: os_mkdir_def)

lemma create_file_result:
  "create_file E p f = Inr f' \<Longrightarrow> \<exists>m. f' = f(p \<mapsto> File [] m)"
  by (auto simp: create_file_def split: option.splits node.splits)

lemma os_mkdir_error: "os_mkdir p f = Inl e \<Longrightarrow> \<not> integrity_error e"
  by (auto simp: os_mkdir_def split: if_splits option.splits node.splits)

lemma mkdir_parents_error: "mkdir_parents p f = Inl e \<Longrightarrow> \<not> integrity_error e"
proof (induction p f arbitrary: e rule: mkdir_parents.induct)
  case (1 p f)
  from "1.prems" show ?case
    apply (subst (asm) mkdir_parents.simps)
    apply (auto split: sum.splits error.splits if_splits dest: os_mkdir_error "1.IH")
    done
qed

lemma create_file_error: "create_file E p f = Inl e \<Longrightarrow> \<not> integrity_error e"
  by (auto simp: create_file_def split: option.splits node.splits)

lemma create_file_in_cache:
  assumes "node_at f (CACHE_DIR E) = Some Dir" and "f (cache_path E a) = None"
  shows "create_file E (cache_path E a) f =
           Inr (f(cache_path E a \<mapsto> File [] (create_mode E)))"
proof -
  have "cache_path E a \<noteq> CACHE_DIR E"
    using assms by (auto simp: node_at_def CACHE_DIR_nonempty)
  then have "butlast (cache_path E a) = CACHE_DIR E"
    by (auto simp: cache_path_def joinpath_def split: if_splits)
  with assms show ?thesis
    by (simp add: create_file_def node_at_nonempty cache_path_nonempty)
qed

subsection \<open>The progress printer touches standard output and the clock only\<close>

lemma raw_output_refl: "raw_output w w"
  unfolding raw_output_def by (rule exI[of _ "[]"]) simp

lemma raw_output_trans: "raw_output w w1 \<Longrightarrow> raw_output w1 w2 \<Longrightarrow> raw_output w w2"
  unfolding raw_output_def
proof -
  assume "\<exists>ss. stdout w1 = stdout w @ map Raw ss" "\<exists>ss. stdout w2 = stdout w1 @ map Raw ss"
  then obtain ss ts where "stdout w1 = stdout w @ map Raw ss" "stdout w2 = stdout w1 @ map Raw ts"
    by blast
  then have "stdout w2 = stdout w @ map Raw (ss @ ts)" by simp
  then show "\<exists>ss. stdout w2 = stdout w @ map Raw ss" ..
qed

lemma raw_output_same: "stdout w' = stdout w \<Longrightarrow> raw_output w w'"
  unfolding raw_output_def by (rule exI[of _ "[]"]) simp

lemma raw_output_write: "stdout w' = stdout w @ [Raw s] \<Longrightarrow> raw_output w w'"
  unfolding raw_output_def by (rule exI[of _ "[s]"]) simp

lemma print_line_keeps:
  assumes "print_line E pr msg w = (r, w')"
  shows "(\<exists>pr'. r = Inr pr') \<and> fs w' = fs w \<and> trace w' = trace w \<and> raw_output w w'"
proof (cases pr)
  case NoOpImpl
  with assms show ?thesis by (auto simp: io_return_def raw_output_refl)
next
  case (Impl t)
  with assms show ?thesis
    by (auto simp: io_return_def io_bind_def time_ns_def stdout_write_def Let_def
        intro: raw_output_same raw_output_write split: if_splits)
qed

lemma enter_keeps:
  "ProgressPrinter_enter E w = (r, w') \<Longrightarrow>
     (\<exists>pr. r = Inr pr) \<and> fs w' = fs w \<and> trace w' = trace w \<and> stdout w' = stdout w"
  by (auto simp: ProgressPrinter_enter_def io_return_def io_bind_def time_ns_def split: if_splits)

lemma exit_keeps:
  "ProgressPrinter_exit E w = (r, w') \<Longrightarrow>
     r = Inr () \<and> fs w' = fs w \<and> trace w' = trace w \<and> raw_output w w'"
  by (auto simp: ProgressPrinter_exit_def io_return_def stdout_write_def
      intro: raw_output_same raw_output_write split: if_splits)

lemma finally_exit:
  assumes "io_finally m (ProgressPrinter_exit E) w = (r, w')"
  shows "\<exists>w1. m w = (r, w1) \<and> fs w' = fs w1 \<and> trace w' = trace w1 \<and> raw_output w1 w'"
proof -
  obtain r1 w1 where m: "m w = (r1, w1)" by (cases "m w")
  obtain r2 w2 where e: "ProgressPrinter_exit E w1 = (r2, w2)"
    by (cases "ProgressPrinter_exit E w1")
  from exit_keeps[OF e] assms m e show ?thesis by (simp add: io_finally_def)
qed

subsection \<open>The loop writes every chunk and feeds it to the hasher\<close>

lemma save_chunks_result:
  "save_chunks E a p cs (saved, h, pr) w = (r, w') \<Longrightarrow> fs w p = Some (File c m) \<Longrightarrow>
     (\<exists>pr'. r = Inr (saved + int (length (concat cs)), h @ concat cs, pr')) \<and>
     fs w' = (fs w)(p \<mapsto> File (c @ concat cs) m) \<and> trace w' = trace w \<and> raw_output w w'"
proof (induction cs arbitrary: saved h pr w c)
  case Nil
  then show ?case by (auto simp: io_return_def raw_output_refl)
next
  case (Cons chunk rest)
  let ?w1 = "w\<lparr>fs := (fs w)(p \<mapsto> File (c @ chunk) m)\<rparr>"
  let ?msg = "filename a @ '': '' @ str_int (saved + int (length chunk)) @ ''/'' @
              str_int (size_bytes a)"
  obtain r2 w2 where pl: "print_line E pr ?msg ?w1 = (r2, w2)"
    by (cases "print_line E pr ?msg ?w1")
  from print_line_keeps[OF pl] obtain pr' where
    r2: "r2 = Inr pr'" and f2: "fs w2 = fs ?w1" and t2: "trace w2 = trace ?w1"
    and o2: "raw_output ?w1 w2" by blast
  from Cons.prems pl r2 have rest:
    "save_chunks E a p rest (saved + int (length chunk), h @ chunk, pr') w2 = (r, w')"
    by (simp add: io_bind_def file_write_def Let_def)
  have "fs w2 p = Some (File (c @ chunk) m)" using f2 by simp
  from Cons.IH[OF rest this] have
    ih: "(\<exists>pr''. r = Inr (saved + int (length chunk) + int (length (concat rest)),
                         (h @ chunk) @ concat rest, pr''))"
        "fs w' = (fs w2)(p \<mapsto> File ((c @ chunk) @ concat rest) m)"
        "trace w' = trace w2" "raw_output w2 w'"
    by blast+
  have "raw_output w ?w1" by (simp add: raw_output_same)
  with o2 ih(4) have "raw_output w w'" by (blast intro: raw_output_trans)
  with ih f2 t2 show ?case by (auto simp: algebra_simps)
qed

subsection \<open>Lines 149 to 158, whatever the transport does\<close>

lemma receive_cases:
  assumes "receive E a p w = (r, w')"
  shows "raw_output w w' \<and>
         (case http E (url a) TIMEOUT of
           Inl s \<Rightarrow> r = Inl (RequestException s) \<and> fs w' = fs w \<and>
             trace w' = trace w @ [HttpGet (url a)]
         | Inr (Response cs fault) \<Rightarrow>
             trace w' = trace w @ [HttpGet (url a), OpenWrite p] \<and>
             (case create_file E p (fs w) of
                Inl e \<Rightarrow> r = Inl e \<and> fs w' = fs w
              | Inr f' \<Rightarrow>
                  (\<exists>m. f' = (fs w)(p \<mapsto> File [] m) \<and>
                       fs w' = (fs w)(p \<mapsto> File (concat cs) m)) \<and>
                  r = (case fault of None \<Rightarrow> Inr (int (length (concat cs)), concat cs)
                       | Some s \<Rightarrow> Inl (RequestException s))))"
proof (cases "http E (url a) TIMEOUT")
  case (Inl e)
  with assms show ?thesis
    by (auto simp: receive_def io_bind_def requests_get_def emit_def intro: raw_output_same)
next
  case (Inr resp)
  obtain cs fault where resp: "resp = Response cs fault" by (cases resp)
  let ?w1 = "emit (HttpGet (url a)) w"
  obtain r2 w2 where en: "ProgressPrinter_enter E ?w1 = (r2, w2)"
    by (cases "ProgressPrinter_enter E ?w1")
  from enter_keeps[OF en] obtain pr where r2: "r2 = Inr pr"
    and f2: "fs w2 = fs w" and t2: "trace w2 = trace w @ [HttpGet (url a)]"
    and o2: "stdout w2 = stdout w"
    by (auto simp: emit_def)
  let ?body = "io_bind (open_wb E p) (\<lambda>u.
                io_bind (save_chunks E a p cs (0, [], pr)) (\<lambda>(saved, hasher, printer').
                  case fault of None \<Rightarrow> io_return (saved, hasher)
                  | Some s \<Rightarrow> io_raise (RequestException s)))"
  from assms Inr resp en r2 have "io_finally ?body (ProgressPrinter_exit E) w2 = (r, w')"
    by (simp add: receive_def io_bind_def requests_get_def)
  from finally_exit[OF this] obtain w3 where body: "?body w2 = (r, w3)"
    and f3: "fs w' = fs w3" and t3: "trace w' = trace w3" and o3: "raw_output w3 w'" by blast
  have o02: "raw_output w w2" using o2 by (simp add: raw_output_same)
  show ?thesis
  proof (cases "create_file E p (fs w)")
    case (Inl e)
    with body f2 have "r = Inl e" and w3: "w3 = emit (OpenWrite p) w2"
      by (auto simp: io_bind_def open_wb_def)
    from w3 have "raw_output w2 w3" by (simp add: raw_output_same emit_def)
    with o02 o3 have "raw_output w w'" by (blast intro: raw_output_trans)
    with \<open>r = Inl e\<close> w3 f2 t2 f3 t3 Inl Inr resp show ?thesis
      by (simp add: emit_def)
  next
    case cf: (Inr f')
    from create_file_result[OF cf] obtain m where f': "f' = (fs w)(p \<mapsto> File [] m)" by blast
    let ?w4 = "(emit (OpenWrite p) w2)\<lparr>fs := f'\<rparr>"
    obtain r5 w5 where sc: "save_chunks E a p cs (0, [], pr) ?w4 = (r5, w5)"
      by (cases "save_chunks E a p cs (0, [], pr) ?w4")
    have "fs ?w4 p = Some (File [] m)" using f' by simp
    from save_chunks_result[OF sc this] obtain pr' where
      r5: "r5 = Inr (int (length (concat cs)), concat cs, pr')"
      and f5: "fs w5 = f'(p \<mapsto> File (concat cs) m)" and t5: "trace w5 = trace ?w4"
      and o5: "raw_output ?w4 w5"
      by auto
    from body cf f2 sc r5 have rw: "(r, w3) =
        (case fault of None \<Rightarrow> Inr (int (length (concat cs)), concat cs)
         | Some s \<Rightarrow> Inl (RequestException s), w5)"
      by (simp add: io_bind_def open_wb_def io_return_def io_raise_def split: option.splits)
    have "raw_output w2 ?w4" by (simp add: raw_output_same emit_def)
    with o02 o5 o3 rw have "raw_output w w'" by (auto intro: raw_output_trans)
    with rw f5 t5 t2 f3 t3 f' Inr resp cf show ?thesis
      by (auto simp: emit_def)
  qed
qed

subsection \<open>Lines 144 to 169: every way the download part can end\<close>

lemma verify_snd: "snd (verify E a saved h w) = w"
  by (simp add: verify_def io_raise_def io_return_def Let_def)

lemma verify_fst: "fst (verify E a saved h w) = fst (verify E a saved h w0)"
  by (simp add: verify_def io_raise_def io_return_def Let_def)


lemma verify_error:
  "fst (verify E a s h w) = Inl e \<longleftrightarrow>
     (s \<noteq> size_bytes a \<and> e = RuntimeError (SizeMismatch (filename a) (size_bytes a) s)) \<or>
     (s = size_bytes a \<and> sha256_hex E h \<noteq> sha256 a \<and>
      e = RuntimeError (Sha256Mismatch (filename a) (sha256 a) (sha256_hex E h)))"
  by (auto simp add: verify_def io_raise_def io_return_def Let_def)

lemma fetch_elim [consumes 1, case_names mkdir_failed request_failed open_failed stream_failed received]:
  assumes run: "fetch E a False p w = (r, w')"
  obtains
    e where "mkdir_parents (CACHE_DIR E) (fs w) = Inl e" "r = Inl e" "fs w' = fs w"
      "trace w' = trace w @ [Mkdir (CACHE_DIR E)]" "stdout w' = stdout w"
  | f1 s where "mkdir_parents (CACHE_DIR E) (fs w) = Inr f1" "http E (url a) TIMEOUT = Inl s"
      "r = Inl (RequestException s)" "fs w' = f1"
      "trace w' = trace w @ [Mkdir (CACHE_DIR E), HttpGet (url a)]" "raw_output w w'"
  | f1 cs fault e where "mkdir_parents (CACHE_DIR E) (fs w) = Inr f1"
      "http E (url a) TIMEOUT = Inr (Response cs fault)" "create_file E p f1 = Inl e"
      "r = Inl e" "fs w' = f1"
      "trace w' = trace w @ [Mkdir (CACHE_DIR E), HttpGet (url a), OpenWrite p]" "raw_output w w'"
  | f1 cs s m where "mkdir_parents (CACHE_DIR E) (fs w) = Inr f1"
      "http E (url a) TIMEOUT = Inr (Response cs (Some s))"
      "create_file E p f1 = Inr (f1(p \<mapsto> File [] m))"
      "r = Inl (RequestException s)" "fs w' = f1(p \<mapsto> File (concat cs) m)"
      "trace w' = trace w @ [Mkdir (CACHE_DIR E), HttpGet (url a), OpenWrite p]" "raw_output w w'"
  | f1 cs m where "mkdir_parents (CACHE_DIR E) (fs w) = Inr f1"
      "http E (url a) TIMEOUT = Inr (Response cs None)"
      "create_file E p f1 = Inr (f1(p \<mapsto> File [] m))"
      "r = fst (verify E a (int (length (concat cs))) (concat cs) w)"
      "fs w' = f1(p \<mapsto> File (concat cs) m)"
      "trace w' = trace w @ [Mkdir (CACHE_DIR E), HttpGet (url a), OpenWrite p]" "raw_output w w'"
proof (cases "mkdir_parents (CACHE_DIR E) (fs w)")
  case (Inl e)
  with run have "r = Inl e" "w' = emit (Mkdir (CACHE_DIR E)) w"
    by (auto simp: fetch_def io_bind_def path_mkdir_def)
  with Inl show ?thesis by (intro that(1)[of e]) (simp_all add: emit_def)
next
  case (Inr f1)
  let ?w1 = "(emit (Mkdir (CACHE_DIR E)) w)\<lparr>fs := f1\<rparr>"
  obtain r2 w2 where rc: "receive E a p ?w1 = (r2, w2)" by (cases "receive E a p ?w1")
  have o1: "raw_output w ?w1" by (simp add: raw_output_same emit_def)
  note R = receive_cases[OF rc]
  from R have o2: "raw_output ?w1 w2" by blast
  have w': "w' = w2" and r: "r = (case r2 of Inl e \<Rightarrow> Inl e
                | Inr (saved, hasher) \<Rightarrow> fst (verify E a saved hasher w))"
    using run Inr rc verify_snd[of E a _ _ w2] verify_fst[of E a _ _ w2 w]
    by (auto simp: fetch_def io_bind_def path_mkdir_def split: sum.splits prod.splits
        dest: arg_cong[where f=snd] arg_cong[where f=fst])
  from o1 o2 w' have o: "raw_output w w'" by (blast intro: raw_output_trans)
  show ?thesis
  proof (cases "http E (url a) TIMEOUT")
    case h: (Inl s)
    with R r w' o Inr show ?thesis
      by (intro that(2)[of f1 s]) (auto simp: emit_def)
  next
    case h: (Inr resp)
    obtain cs fault where resp: "resp = Response cs fault" by (cases resp)
    show ?thesis
    proof (cases "create_file E p f1")
      case c: (Inl e)
      with R r w' o Inr h resp show ?thesis
        by (intro that(3)[of f1 cs fault e]) (auto simp: emit_def)
    next
      case c: (Inr f')
      with R h resp obtain m where m: "f' = f1(p \<mapsto> File [] m)"
        "fs w2 = f1(p \<mapsto> File (concat cs) m)" by auto
      show ?thesis
      proof (cases fault)
        case None
        with R r w' o Inr h resp c m show ?thesis
          by (intro that(5)[of f1 cs m]) (auto simp: emit_def)
      next
        case (Some s)
        with R r w' o Inr h resp c m show ?thesis
          by (intro that(4)[of f1 cs s m]) (auto simp: emit_def)
      qed
    qed
  qed
qed

lemma fetch_dry:
  "fetch E a True p w = (Inr (), w\<lparr>stdout := stdout w @ [Line (MsgDownload (url a) p)]\<rparr>)"
  by (simp add: fetch_def print_def)

lemma fetch_trace:
  assumes "fetch E a d p w = (r, w')"
  shows "\<exists>es. trace w' = trace w @ es \<and>
              set es \<subseteq> {Mkdir (CACHE_DIR E), HttpGet (url a), OpenWrite p}"
proof (cases d)
  case True
  with assms show ?thesis by (auto simp: fetch_dry)
next
  case False
  with assms have "fetch E a False p w = (r, w')" by simp
  then show ?thesis by (cases rule: fetch_elim) auto
qed


lemma fetch_integrity_error:
  assumes "fetch E a False p w = (Inl (RuntimeError ie), w')"
  shows "\<exists>cs m. http E (url a) TIMEOUT = Inr (Response cs None) \<and>
           fs w' p = Some (File (concat cs) m) \<and>
           trace w' = trace w @ [Mkdir (CACHE_DIR E), HttpGet (url a), OpenWrite p] \<and>
           (if int (length (concat cs)) \<noteq> size_bytes a
            then ie = SizeMismatch (filename a) (size_bytes a) (int (length (concat cs)))
            else sha256_hex E (concat cs) \<noteq> sha256 a \<and>
                 ie = Sha256Mismatch (filename a) (sha256 a) (sha256_hex E (concat cs)))"
  using assms
proof (cases rule: fetch_elim)
  case (mkdir_failed e)
  then show ?thesis using mkdir_parents_error[of "CACHE_DIR E" "fs w" e] by auto
next
  case (open_failed f1 cs fault e)
  then show ?thesis using create_file_error[of E p f1 e] by auto
next
  case (received f1 cs m)
  then show ?thesis
    using verify_error[of E a "int (length (concat cs))" "concat cs" w "RuntimeError ie"]
    by auto
qed auto

subsection \<open>download in each state of the cache entry\<close>

lemma download_absent:
  assumes "fs w (cache_path E a) = None"
  shows "download E a d w = fetch E a d (cache_path E a) (emit (PathExists (cache_path E a)) w)"
  using assms
  by (simp add: download_def Let_def io_bind_def path_exists_def node_at_nonempty cache_path_nonempty)

lemma download_valid:
  assumes "fs w (cache_path E a) = Some (File c m)"
      and "int (length c) = size_bytes a" and "sha256_hex E c = sha256 a"
  shows "download E a d w =
           (Inr (), w\<lparr>trace := trace w @
              [PathExists (cache_path E a), PathStat (cache_path E a), OpenRead (cache_path E a)]\<rparr>)"
  using assms
  by (simp add: download_def Let_def io_bind_def io_return_def path_exists_def path_stat_def
      get_sha256_def open_rb_def emit_def node_at_nonempty cache_path_nonempty)

lemma download_stale:
  assumes "fs w (cache_path E a) = Some (File c m)"
      and "int (length c) \<noteq> size_bytes a \<or> sha256_hex E c \<noteq> sha256 a"
  shows "download E a False w =
           fetch E a False (cache_path E a)
             (w\<lparr>trace := trace w @
                  [PathExists (cache_path E a), PathStat (cache_path E a)] @
                  (if int (length c) = size_bytes a then [OpenRead (cache_path E a)] else []) @
                  [PathUnlink (cache_path E a)],
                fs := (fs w)(cache_path E a := None)\<rparr>)"
  using assms
  by (auto simp add: download_def Let_def io_bind_def io_return_def path_exists_def path_stat_def
      get_sha256_def open_rb_def emit_def node_at_nonempty cache_path_nonempty path_unlink_def)

lemma download_stale_dry:
  assumes "fs w (cache_path E a) = Some (File c m)"
      and "int (length c) \<noteq> size_bytes a \<or> sha256_hex E c \<noteq> sha256 a"
  shows "download E a True w =
           (Inr (), w\<lparr>stdout := stdout w @
                  [Line (MsgVerificationFailed (cache_path E a)),
                   Line (MsgDownload (url a) (cache_path E a))],
                trace := trace w @
                  [PathExists (cache_path E a), PathStat (cache_path E a)] @
                  (if int (length c) = size_bytes a then [OpenRead (cache_path E a)] else [])\<rparr>)"
  using assms
  by (auto simp add: download_def Let_def io_bind_def io_return_def path_exists_def path_stat_def
      get_sha256_def open_rb_def emit_def node_at_nonempty cache_path_nonempty print_def fetch_def)

lemma download_dir:
  assumes "fs w (cache_path E a) = Some Dir"
  shows "download E a d w =
          (if st_size (dir_stat E) = size_bytes a
           then (Inl (IsADirectoryError (cache_path E a)),
                 w\<lparr>trace := trace w @
                   [PathExists (cache_path E a), PathStat (cache_path E a), OpenRead (cache_path E a)]\<rparr>)
           else if d
           then (Inr (), w\<lparr>stdout := stdout w @
                  [Line (MsgVerificationFailed (cache_path E a)),
                   Line (MsgDownload (url a) (cache_path E a))],
                trace := trace w @ [PathExists (cache_path E a), PathStat (cache_path E a)]\<rparr>)
           else (Inl (IsADirectoryError (cache_path E a)),
                 w\<lparr>trace := trace w @
                   [PathExists (cache_path E a), PathStat (cache_path E a), PathUnlink (cache_path E a)]\<rparr>))"
  using assms
  by (auto simp add: download_def Let_def io_bind_def io_return_def path_exists_def path_stat_def
      get_sha256_def open_rb_def emit_def node_at_nonempty cache_path_nonempty print_def fetch_def
      path_unlink_def)

lemma download_elim [consumes 1, case_names absent hit stale_dry stale dir]:
  assumes run: "download E a d w = (r, w')"
  obtains
    "fs w (cache_path E a) = None"
    "fetch E a d (cache_path E a) (emit (PathExists (cache_path E a)) w) = (r, w')"
  | c m where "fs w (cache_path E a) = Some (File c m)"
      "int (length c) = size_bytes a" "sha256_hex E c = sha256 a" "r = Inr ()"
      "w' = w\<lparr>trace := trace w @
              [PathExists (cache_path E a), PathStat (cache_path E a), OpenRead (cache_path E a)]\<rparr>"
  | c m where "d" "fs w (cache_path E a) = Some (File c m)"
      "int (length c) \<noteq> size_bytes a \<or> sha256_hex E c \<noteq> sha256 a" "r = Inr ()"
      "w' = w\<lparr>stdout := stdout w @
                  [Line (MsgVerificationFailed (cache_path E a)),
                   Line (MsgDownload (url a) (cache_path E a))],
                trace := trace w @
                  [PathExists (cache_path E a), PathStat (cache_path E a)] @
                  (if int (length c) = size_bytes a then [OpenRead (cache_path E a)] else [])\<rparr>"
  | c m where "\<not> d" "fs w (cache_path E a) = Some (File c m)"
      "int (length c) \<noteq> size_bytes a \<or> sha256_hex E c \<noteq> sha256 a"
      "fetch E a False (cache_path E a)
             (w\<lparr>trace := trace w @
                  [PathExists (cache_path E a), PathStat (cache_path E a)] @
                  (if int (length c) = size_bytes a then [OpenRead (cache_path E a)] else []) @
                  [PathUnlink (cache_path E a)],
                fs := (fs w)(cache_path E a := None)\<rparr>) = (r, w')"
  | "fs w (cache_path E a) = Some Dir"
      "(r, w') =
          (if st_size (dir_stat E) = size_bytes a
           then (Inl (IsADirectoryError (cache_path E a)),
                 w\<lparr>trace := trace w @
                   [PathExists (cache_path E a), PathStat (cache_path E a), OpenRead (cache_path E a)]\<rparr>)
           else if d
           then (Inr (), w\<lparr>stdout := stdout w @
                  [Line (MsgVerificationFailed (cache_path E a)),
                   Line (MsgDownload (url a) (cache_path E a))],
                trace := trace w @ [PathExists (cache_path E a), PathStat (cache_path E a)]\<rparr>)
           else (Inl (IsADirectoryError (cache_path E a)),
                 w\<lparr>trace := trace w @
                   [PathExists (cache_path E a), PathStat (cache_path E a), PathUnlink (cache_path E a)]\<rparr>))"
proof (cases "fs w (cache_path E a)")
  case None
  with run download_absent[OF None, of d] show ?thesis by (intro that(1)) simp_all
next
  case (Some n)
  show ?thesis
  proof (cases n)
    case Dir
    with Some have "fs w (cache_path E a) = Some Dir" by simp
    from this run download_dir[OF this, of d] show ?thesis by (intro that(5)) simp_all
  next
    case (File c m)
    with Some have f: "fs w (cache_path E a) = Some (File c m)" by simp
    show ?thesis
    proof (cases "int (length c) = size_bytes a \<and> sha256_hex E c = sha256 a")
      case True
      with run download_valid[OF f, of d] f show ?thesis by (intro that(2)[of c m]) simp_all
    next
      case False
      then have st: "int (length c) \<noteq> size_bytes a \<or> sha256_hex E c \<noteq> sha256 a" by blast
      show ?thesis
      proof (cases d)
        case True
        with run download_stale_dry[OF f st] f st show ?thesis
          by (intro that(3)[of c m]) simp_all
      next
        case False
        with run download_stale[OF f st] f st show ?thesis
          by (intro that(4)[of c m]) simp_all
      qed
    qed
  qed
qed

lemma download_integrity_error:
  assumes "download E a d w = (Inl (RuntimeError ie), w')"
  shows "\<not> d \<and> (\<exists>cs m pre. http E (url a) TIMEOUT = Inr (Response cs None) \<and>
           fs w' (cache_path E a) = Some (File (concat cs) m) \<and>
           new_events w w' =
             pre @ [Mkdir (CACHE_DIR E), HttpGet (url a), OpenWrite (cache_path E a)] \<and>
           (if int (length (concat cs)) \<noteq> size_bytes a
            then ie = SizeMismatch (filename a) (size_bytes a) (int (length (concat cs)))
            else sha256_hex E (concat cs) \<noteq> sha256 a \<and>
                 ie = Sha256Mismatch (filename a) (sha256 a) (sha256_hex E (concat cs))))"
  using assms
proof (cases rule: download_elim)
  case absent
  show ?thesis
  proof (cases d)
    case True
    with absent show ?thesis by (simp add: fetch_dry)
  next
    case False
    with absent have "fetch E a False (cache_path E a) (emit (PathExists (cache_path E a)) w) =
        (Inl (RuntimeError ie), w')" by simp
    from fetch_integrity_error[OF this] False show ?thesis
      by (auto simp: new_events_def emit_def)
  qed
next
  case (stale c m)
  from fetch_integrity_error[OF stale(4)] stale(1) show ?thesis
    by (auto simp: new_events_def)
next
  case dir
  then show ?thesis by (auto split: if_splits)
qed auto

subsection \<open>What a download leaves in the cache\<close>

lemma fetch_in_cache:
  assumes run: "fetch E a False (cache_path E a) w = (r, w')"
      and dir: "node_at (fs w) (CACHE_DIR E) = Some Dir"
      and absent: "fs w (cache_path E a) = None"
  shows "case http E (url a) TIMEOUT of
           Inl s \<Rightarrow> r = Inl (RequestException s) \<and> fs w' = fs w \<and>
             trace w' = trace w @ [Mkdir (CACHE_DIR E), HttpGet (url a)]
         | Inr (Response cs fault) \<Rightarrow>
             fs w' = (fs w)(cache_path E a \<mapsto> File (concat cs) (create_mode E)) \<and>
             trace w' = trace w @
               [Mkdir (CACHE_DIR E), HttpGet (url a), OpenWrite (cache_path E a)] \<and>
             r = (case fault of
                    None \<Rightarrow> fst (verify E a (int (length (concat cs))) (concat cs) w)
                  | Some s \<Rightarrow> Inl (RequestException s))"
  using run
proof (cases rule: fetch_elim)
  case (mkdir_failed e)
  with mkdir_parents_existing[OF dir] show ?thesis by simp
next
  case (request_failed f1 s)
  with mkdir_parents_existing[OF dir] show ?thesis by simp
next
  case (open_failed f1 cs fault e)
  with mkdir_parents_existing[OF dir] create_file_in_cache[OF dir absent] show ?thesis by simp
next
  case (stream_failed f1 cs s m)
  with mkdir_parents_existing[OF dir] create_file_in_cache[OF dir absent]
  have "f1 = fs w" and "(fs w)(cache_path E a \<mapsto> File [] m) =
      (fs w)(cache_path E a \<mapsto> File [] (create_mode E))" by simp_all
  from this(2) have "m = create_mode E"
    by (auto dest: fun_cong[where x="cache_path E a"])
  with stream_failed \<open>f1 = fs w\<close> show ?thesis by simp
next
  case (received f1 cs m)
  with mkdir_parents_existing[OF dir] create_file_in_cache[OF dir absent]
  have "f1 = fs w" and "(fs w)(cache_path E a \<mapsto> File [] m) =
      (fs w)(cache_path E a \<mapsto> File [] (create_mode E))" by simp_all
  from this(2) have "m = create_mode E"
    by (auto dest: fun_cong[where x="cache_path E a"])
  with received \<open>f1 = fs w\<close> show ?thesis by simp
qed







subsection \<open>The downloads call and print nothing of the later steps\<close>

lemma downloads_only_refl: "downloads_only w w"
  by (simp add: downloads_only_def)

lemma downloads_only_trans:
  assumes "downloads_only w w1" and "downloads_only w1 w2"
  shows "downloads_only w w2"
proof -
  from assms obtain es xs es' xs' where
    1: "trace w1 = trace w @ es" "\<forall>e \<in> set es. \<not> provisioning_event e"
       "stdout w1 = stdout w @ xs" "\<forall>x \<in> set xs. \<not> provisioning_output x"
    and 2: "trace w2 = trace w1 @ es'" "\<forall>e \<in> set es'. \<not> provisioning_event e"
       "stdout w2 = stdout w1 @ xs'" "\<forall>x \<in> set xs'. \<not> provisioning_output x"
    unfolding downloads_only_def by blast
  from 1 2 have "trace w2 = trace w @ (es @ es') \<and> (\<forall>e \<in> set (es @ es'). \<not> provisioning_event e)"
    and "stdout w2 = stdout w @ (xs @ xs') \<and> (\<forall>x \<in> set (xs @ xs'). \<not> provisioning_output x)"
    by auto
  then show ?thesis unfolding downloads_only_def by blast
qed

lemma downloads_onlyI:
  assumes "trace w' = trace w @ es" and "\<forall>e \<in> set es. \<not> provisioning_event e"
      and "stdout w' = stdout w @ xs" and "\<forall>x \<in> set xs. \<not> provisioning_output x"
  shows "downloads_only w w'"
  using assms unfolding downloads_only_def by blast

lemma raw_output_downloads_only:
  assumes "raw_output w w'" and "trace w' = trace w @ es"
      and "\<forall>e \<in> set es. \<not> provisioning_event e"
  shows "downloads_only w w'"
proof -
  from assms(1) obtain ss where "stdout w' = stdout w @ map Raw ss"
    unfolding raw_output_def by blast
  moreover have "\<forall>x \<in> set (map Raw ss). \<not> provisioning_output x" by auto
  ultimately show ?thesis using assms(2,3) by (rule downloads_onlyI[rotated 2])
qed

lemma fetch_downloads_only:
  assumes "fetch E a d p w = (r, w')"
  shows "downloads_only w w'"
proof (cases d)
  case True
  with assms have "w' = w\<lparr>stdout := stdout w @ [Line (MsgDownload (url a) p)]\<rparr>"
    by (simp add: fetch_dry)
  then show ?thesis
    by (intro downloads_onlyI[of _ _ "[]" "[Line (MsgDownload (url a) p)]"]) simp_all
next
  case False
  with assms have "fetch E a False p w = (r, w')" by simp
  then show ?thesis
  proof (cases rule: fetch_elim)
    case (mkdir_failed e)
    then show ?thesis
      by (intro downloads_onlyI[of _ _ "[Mkdir (CACHE_DIR E)]" "[]"]) simp_all
  qed (erule raw_output_downloads_only, assumption, simp)+
qed

lemma download_downloads_only:
  assumes "download E a d w = (r, w')"
  shows "downloads_only w w'"
  using assms
proof (cases rule: download_elim)
  case absent
  have "downloads_only w (emit (PathExists (cache_path E a)) w)"
    by (intro downloads_onlyI[of _ _ "[PathExists (cache_path E a)]" "[]"])
       (simp_all add: emit_def)
  with fetch_downloads_only[OF absent(2)] show ?thesis by (blast intro: downloads_only_trans)
next
  case (hit c m)
  then show ?thesis
    by (intro downloads_onlyI[of _ _ "[PathExists (cache_path E a), PathStat (cache_path E a),
        OpenRead (cache_path E a)]" "[]"]) simp_all
next
  case (stale_dry c m)
  then show ?thesis
    by (intro downloads_onlyI[of _ _ "[PathExists (cache_path E a), PathStat (cache_path E a)] @
          (if int (length c) = size_bytes a then [OpenRead (cache_path E a)] else [])"
        "[Line (MsgVerificationFailed (cache_path E a)),
          Line (MsgDownload (url a) (cache_path E a))]"]) simp_all
next
  case (stale c m)
  let ?w1 = "w\<lparr>trace := trace w @
                  [PathExists (cache_path E a), PathStat (cache_path E a)] @
                  (if int (length c) = size_bytes a then [OpenRead (cache_path E a)] else []) @
                  [PathUnlink (cache_path E a)],
                fs := (fs w)(cache_path E a := None)\<rparr>"
  have "downloads_only w ?w1"
    by (intro downloads_onlyI[of _ _ "[PathExists (cache_path E a), PathStat (cache_path E a)] @
          (if int (length c) = size_bytes a then [OpenRead (cache_path E a)] else []) @
          [PathUnlink (cache_path E a)]" "[]"]) simp_all
  with fetch_downloads_only[OF stale(4)] show ?thesis by (blast intro: downloads_only_trans)
next
  case dir
  show ?thesis
  proof (cases "st_size (dir_stat E) = size_bytes a")
    case True
    with dir show ?thesis
      by (intro downloads_onlyI[of _ _ "[PathExists (cache_path E a), PathStat (cache_path E a),
          OpenRead (cache_path E a)]" "[]"]) simp_all
  next
    case False
    show ?thesis
    proof (cases d)
      case True
      with False dir show ?thesis
        by (intro downloads_onlyI[of _ _ "[PathExists (cache_path E a), PathStat (cache_path E a)]"
            "[Line (MsgVerificationFailed (cache_path E a)),
              Line (MsgDownload (url a) (cache_path E a))]"]) simp_all
    next
      case d: False
      with False dir show ?thesis
        by (intro downloads_onlyI[of _ _ "[PathExists (cache_path E a), PathStat (cache_path E a),
            PathUnlink (cache_path E a)]" "[]"]) simp_all
    qed
  qed
qed

lemma for_each_downloads_only:
  "for_each (\<lambda>archive. download E archive d) archives w = (r, w') \<Longrightarrow> downloads_only w w'"
proof (induction archives arbitrary: w)
  case Nil
  then show ?case by (simp add: io_return_def downloads_only_refl)
next
  case (Cons a archives)
  obtain r1 w1 where d1: "download E a d w = (r1, w1)" by (cases "download E a d w")
  note s1 = download_downloads_only[OF d1]
  show ?case
  proof (cases r1)
    case (Inl e)
    with Cons.prems d1 have "w' = w1" by (simp add: io_bind_def)
    with s1 show ?thesis by simp
  next
    case (Inr u)
    with Cons.prems d1 have "for_each (\<lambda>archive. download E archive d) archives w1 = (r, w')"
      by (simp add: io_bind_def)
    from Cons.IH[OF this] s1 show ?thesis by (blast intro: downloads_only_trans)
  qed
qed

subsection \<open>A dry run only reads and reports\<close>

lemma reports_refl: "reports w w []"
  by (simp add: reports_def)

lemma reports_trans:
  assumes "reports w w1 ms" and "reports w1 w2 ns"
  shows "reports w w2 (ms @ ns)"
proof -
  from assms obtain es es' where
    "trace w1 = trace w @ es" "\<forall>e \<in> set es. read_only_event e"
    "trace w2 = trace w1 @ es'" "\<forall>e \<in> set es'. read_only_event e"
    unfolding reports_def by blast
  then have "trace w2 = trace w @ (es @ es') \<and> (\<forall>e \<in> set (es @ es'). read_only_event e)"
    by auto
  then have "\<exists>es. trace w2 = trace w @ es \<and> (\<forall>e \<in> set es. read_only_event e)" by blast
  with assms show ?thesis by (simp add: reports_def)
qed

lemma reportsI:
  assumes "fs w' = fs w" "ticks w' = ticks w" "stdout w' = stdout w @ map Line ms"
      and "trace w' = trace w @ es" "\<forall>e \<in> set es. read_only_event e"
  shows "reports w w' ms"
  using assms unfolding reports_def by blast

lemma download_dry_reports:
  assumes "download E a True w = (r, w')"
  shows "\<exists>ms. reports w w' ms \<and>
           (r = Inr () \<longrightarrow> ms = map announce (spec_plan_download E (fs w) a))"
  using assms
proof (cases rule: download_elim)
  case absent
  then have w': "w' = (emit (PathExists (cache_path E a)) w)
      \<lparr>stdout := stdout w @ [Line (MsgDownload (url a) (cache_path E a))]\<rparr>" and "r = Inr ()"
    by (simp_all add: fetch_dry emit_def)
  from w' have "reports w w' [MsgDownload (url a) (cache_path E a)]"
    by (intro reportsI[of _ _ _ "[PathExists (cache_path E a)]"]) (simp_all add: emit_def)
  moreover from absent(1) have
    "map announce (spec_plan_download E (fs w) a) = [MsgDownload (url a) (cache_path E a)]"
    by (simp add: spec_plan_download_def spec_cache_valid_def node_at_nonempty
        cache_path_nonempty)
  ultimately show ?thesis by auto
next
  case (hit c m)
  then have "reports w w' []"
    by (intro reportsI[of _ _ _ "[PathExists (cache_path E a), PathStat (cache_path E a),
        OpenRead (cache_path E a)]"]) simp_all
  moreover from hit have "map announce (spec_plan_download E (fs w) a) = []"
    by (simp add: spec_plan_download_def spec_cache_valid_def node_at_nonempty
        cache_path_nonempty)
  ultimately show ?thesis by auto
next
  case (stale_dry c m)
  then have "reports w w' [MsgVerificationFailed (cache_path E a),
                           MsgDownload (url a) (cache_path E a)]"
    by (intro reportsI[of _ _ _ "[PathExists (cache_path E a), PathStat (cache_path E a)] @
          (if int (length c) = size_bytes a then [OpenRead (cache_path E a)] else [])"])
       simp_all
  moreover from stale_dry have "map announce (spec_plan_download E (fs w) a) =
      [MsgVerificationFailed (cache_path E a), MsgDownload (url a) (cache_path E a)]"
    by (auto simp: spec_plan_download_def spec_cache_valid_def node_at_nonempty
        cache_path_nonempty)
  ultimately show ?thesis by auto
next
  case (stale c m)
  then show ?thesis by simp
next
  case dir
  show ?thesis
  proof (cases "st_size (dir_stat E) = size_bytes a")
    case True
    with dir have "reports w w' []" and "r \<noteq> Inr ()"
      by (auto intro!: reportsI[of _ _ _ "[PathExists (cache_path E a),
          PathStat (cache_path E a), OpenRead (cache_path E a)]"])
    then show ?thesis by blast
  next
    case False
    with dir have "reports w w' [MsgVerificationFailed (cache_path E a),
                           MsgDownload (url a) (cache_path E a)]"
      by (intro reportsI[of _ _ _ "[PathExists (cache_path E a), PathStat (cache_path E a)]"])
         simp_all
    moreover from dir have "map announce (spec_plan_download E (fs w) a) =
      [MsgVerificationFailed (cache_path E a), MsgDownload (url a) (cache_path E a)]"
      by (simp add: spec_plan_download_def spec_cache_valid_def node_at_nonempty
          cache_path_nonempty)
    ultimately show ?thesis by auto
  qed
qed

lemma for_each_dry_reports:
  "for_each (\<lambda>archive. download E archive True) archives w = (r, w') \<Longrightarrow>
     \<exists>ms. reports w w' ms \<and>
       (r = Inr () \<longrightarrow> ms = map announce (concat (map (spec_plan_download E (fs w)) archives)))"
proof (induction archives arbitrary: w)
  case Nil
  then show ?case by (auto simp: io_return_def reports_refl)
next
  case (Cons a archives)
  obtain r1 w1 where d1: "download E a True w = (r1, w1)" by (cases "download E a True w")
  from download_dry_reports[OF d1] obtain ms where
    ms: "reports w w1 ms" "r1 = Inr () \<longrightarrow> ms = map announce (spec_plan_download E (fs w) a)"
    by blast
  show ?case
  proof (cases r1)
    case (Inl e)
    with Cons.prems d1 have "w' = w1" "r = Inl e" by (simp_all add: io_bind_def)
    with ms show ?thesis by auto
  next
    case (Inr u)
    with Cons.prems d1 have "for_each (\<lambda>archive. download E archive True) archives w1 = (r, w')"
      by (simp add: io_bind_def)
    from Cons.IH[OF this] obtain ns where
      ns: "reports w1 w' ns"
          "r = Inr () \<longrightarrow> ns = map announce (concat (map (spec_plan_download E (fs w1)) archives))"
      by blast
    from ms(1) have "fs w1 = fs w" by (simp add: reports_def)
    with ms ns Inr reports_trans[OF ms(1) ns(1)] show ?thesis
      by (intro exI[of _ "ms @ ns"]) simp
  qed
qed

lemma restore_dry:
  "restore_dotnet_tools E True w =
     (Inr (), w\<lparr>stdout := stdout w @
        [Line (MsgExecCommand [''dotnet'', ''tool'', ''restore''] (ABS_MOZC_SRC_DIR E))]\<rparr>)"
  by (simp add: restore_dotnet_tools_def print_def)

lemma update_dry:
  "update_submodules E True w =
     (Inr (), w\<lparr>stdout := stdout w @
        [Line (MsgSubprocessRun ''git submodule update --init --recursive'')]\<rparr>)"
  by (simp add: update_submodules_def print_def)

lemma extract_dry:
  assumes "is_mac E \<or> is_windows E"
  shows "extract_ninja E True w =
     (Inr (), w\<lparr>stdout := stdout w @
         map Line
           ((if node_at (fs w) (joinpath (ABS_THIRD_PARTY_DIR E) ''ninja'') \<noteq> None
             then [MsgRmtree (joinpath (ABS_THIRD_PARTY_DIR E) ''ninja'')] else []) @
            [if is_mac E
             then MsgExtracting ''ninja'' (cache_path E NINJA_MAC)
                    (joinpath (ABS_THIRD_PARTY_DIR E) ''ninja'')
             else MsgExtracting ''ninja.exe'' (cache_path E NINJA_WIN)
                    (joinpath (ABS_THIRD_PARTY_DIR E) ''ninja'')]),
        trace := trace w @ [PathExists (joinpath (ABS_THIRD_PARTY_DIR E) ''ninja'')]\<rparr>)"
  using assms
  by (auto simp: extract_ninja_def Let_def io_bind_def io_return_def path_exists_def print_def
      emit_def)

lemma ninja_selected:
  "contains NINJA_WIN (select_archives E args) \<or> contains NINJA_MAC (select_archives E args) \<longleftrightarrow>
     \<not> noninja args \<and> (is_mac E \<or> is_windows E)"
  by (auto simp: select_archives_def contains_def archive_eq_def QT6_def NINJA_MAC_def
      NINJA_WIN_def)

lemma dry_tail_reports:
  assumes "(if cache_only args then io_return ()
        else
          io_bind (if \<not> nowix args \<and> is_windows E then restore_dotnet_tools E True
                   else io_return ()) (\<lambda>u.
            io_bind (if \<not> noninja args \<and> (is_mac E \<or> is_windows E)
                     then extract_ninja E True
                     else io_return ()) (\<lambda>u.
              if \<not> nosubmodules args then update_submodules E True
              else io_return ()))) w = (r, w')"
  shows "r = Inr () \<and>
         reports w w' (map announce
     (if cache_only args then []
      else
        (if \<not> nowix args \<and> is_windows E
         then [RestoreTools [''dotnet'', ''tool'', ''restore''] (ABS_MOZC_SRC_DIR E)] else []) @
        (if \<not> noninja args \<and> (is_mac E \<or> is_windows E)
         then (if node_at (fs w) (joinpath (ABS_THIRD_PARTY_DIR E) ''ninja'') \<noteq> None
               then [RemoveDestination (joinpath (ABS_THIRD_PARTY_DIR E) ''ninja'')] else []) @
              [if is_mac E
               then ExtractTool ''ninja'' (cache_path E NINJA_MAC)
                      (joinpath (ABS_THIRD_PARTY_DIR E) ''ninja'')
               else ExtractTool ''ninja.exe'' (cache_path E NINJA_WIN)
                      (joinpath (ABS_THIRD_PARTY_DIR E) ''ninja'')]
         else []) @
        (if \<not> nosubmodules args
         then [SyncSubmodules ''git submodule update --init --recursive''] else [])))"
proof (cases "\<not> noninja args \<and> (is_mac E \<or> is_windows E)")
  case True
  then have x: "is_mac E \<or> is_windows E" by blast
  from assms True show ?thesis
    by (auto simp: io_bind_def io_return_def restore_dry update_dry extract_dry[OF x]
        reports_def split: if_splits
        intro: exI[of _ "[PathExists (joinpath (ABS_THIRD_PARTY_DIR E) ''ninja'')]"])
next
  case False
  with assms show ?thesis
    by (auto simp: io_bind_def io_return_def restore_dry update_dry reports_def
        split: if_splits)
qed

subsection \<open>The registry\<close>

lemma filename_NINJA_MAC: "filename NINJA_MAC = ''ninja-mac.zip''"
  by (simp add: filename_def NINJA_MAC_def)

lemma filename_NINJA_WIN: "filename NINJA_WIN = ''ninja-win.zip''"
  by (simp add: filename_def NINJA_WIN_def)

lemma filename_QT6: "filename QT6 = ''qtbase-everywhere-src-6.8.0.tar.xz''"
  by (simp add: filename_def QT6_def)

subsection \<open>Concrete runs\<close>

lemma example_env_fields:
  "os_name (example_env n s net) = n"
  "uname_sysname (example_env n s net) = s"
  "src_dir (example_env n s net) = [''mozc'', ''src'']"
  "isatty (example_env n s net) = False"
  "sha256_hex (example_env n s net) = toy_sha256"
  "http (example_env n s net) = net"
  "dir_stat (example_env n s net) = \<lparr>st_size = 4096, st_mode = 16877\<rparr>"
  "create_mode (example_env n s net) = 420"
  "columns (example_env n s net) = 80"
  "clock (example_env n s net) = (\<lambda>n. 0)"
  "unzip (example_env n s net) = (\<lambda>bs. if bs = [7, 7] then Some [''ninja'' \<mapsto> [9]] else None)"
  "shell (example_env n s net) = (\<lambda>command f. (0, f))"
  "spawn (example_env n s net) = (\<lambda>args cwd f. (Some 0, f))"
  by (simp_all add: example_env_def)

lemma FOO_fields:
  "url FOO = ''https://example.org/foo-1.0.zip''" "size_bytes FOO = 3" "sha256 FOO = ''good''"
  by (simp_all add: FOO_def)

lemma filename_FOO: "filename FOO = ''foo-1.0.zip''"
  by (simp add: filename_def FOO_def)

lemma CACHE_DIR_example: "CACHE_DIR (example_env n s net) = CACHE"
  by (simp add: CACHE_DIR_def ABS_MOZC_SRC_DIR_def joinpath_def example_env_def CACHE_def)

lemma cache_path_FOO: "cache_path (example_env n s net) FOO = FOO_path"
  by (simp add: cache_path_def filename_FOO CACHE_DIR_example CACHE_def joinpath_def FOO_path_def)

lemmas run_defs = download_def fetch_def receive_def verify_def io_bind_def io_return_def
  io_raise_def io_finally_def path_exists_def path_stat_def get_sha256_def open_rb_def
  path_unlink_def path_mkdir_def requests_get_def open_wb_def create_file_def file_write_def
  ProgressPrinter_enter_def ProgressPrinter_exit_def emit_def node_at_def print_def
  mkdir_parents_existing

lemmas example_defs = cache_path_FOO CACHE_DIR_example example_world_def example_env_fields
  FOO_fields filename_FOO serving_def no_network_def toy_sha256_def CACHE_def FOO_path_def

lemma cache_path_NINJA_MAC: "cache_path (example_env n s net) NINJA_MAC = NINJA_MAC_path"
  by (simp add: cache_path_def filename_NINJA_MAC CACHE_DIR_example CACHE_def joinpath_def
      NINJA_MAC_path_def)

lemma ABS_THIRD_PARTY_DIR_example:
  "ABS_THIRD_PARTY_DIR (example_env n s net) = [''mozc'', ''src'', ''third_party'']"
  by (simp add: ABS_THIRD_PARTY_DIR_def ABS_MOZC_SRC_DIR_def joinpath_def example_env_def)

lemma dest_example:
  "joinpath (ABS_THIRD_PARTY_DIR (example_env n s net)) ''ninja'' = NINJA_DEST"
  by (simp add: ABS_THIRD_PARTY_DIR_def ABS_MOZC_SRC_DIR_def joinpath_def example_env_def
      NINJA_DEST_def)

lemmas extract_defs = extract_ninja_def zip_open_def zip_extract_def extract_member_def
  path_chmod_def S_IFREG_def S_IXUSR_def is_mac_def is_windows_def

lemma cache_path_QT6: "cache_path (example_env n s net) QT6 = QT6_path"
  by (simp add: cache_path_def filename_QT6 CACHE_DIR_example CACHE_def joinpath_def
      QT6_path_def)

lemma select_archives_mac:
  "select_archives (example_env ''posix'' ''Darwin'' net) dryrun_flags = [QT6, NINJA_MAC]"
  by (simp add: select_archives_def dryrun_flags_def is_mac_def is_windows_def
      example_env_fields)

lemma example_run_stale:
  "download (example_env ''posix'' ''Linux'' (serving [[1], [2, 3]])) FOO False
     (example_world [CACHE \<mapsto> Dir, FOO_path \<mapsto> File [1, 2] 420]) =
   (Inr (), \<lparr>fs = [CACHE \<mapsto> Dir, FOO_path \<mapsto> File [1, 2, 3] 420], stdout = [],
      trace = [PathExists FOO_path, PathStat FOO_path, PathUnlink FOO_path, Mkdir CACHE,
               HttpGet ''https://example.org/foo-1.0.zip'', OpenWrite FOO_path],
      ticks = 0\<rparr>)"
  by (simp add: run_defs example_defs Let_def)

lemma example_run_same_size_dry:
  "download (example_env ''posix'' ''Linux'' no_network) FOO True
     (example_world [CACHE \<mapsto> Dir, FOO_path \<mapsto> File [9, 9, 9] 420]) =
   (Inr (), \<lparr>fs = [CACHE \<mapsto> Dir, FOO_path \<mapsto> File [9, 9, 9] 420],
      stdout = [Line (MsgVerificationFailed FOO_path),
                Line (MsgDownload ''https://example.org/foo-1.0.zip'' FOO_path)],
      trace = [PathExists FOO_path, PathStat FOO_path, OpenRead FOO_path],
      ticks = 0\<rparr>)"
  by (simp add: run_defs example_defs Let_def)

lemma example_run_short:
  "download (example_env ''posix'' ''Linux'' (serving [[1], [2]])) FOO False
     (example_world [CACHE \<mapsto> Dir]) =
   (Inl (RuntimeError (SizeMismatch ''foo-1.0.zip'' 3 2)),
    \<lparr>fs = [CACHE \<mapsto> Dir, FOO_path \<mapsto> File [1, 2] 420], stdout = [],
      trace = [PathExists FOO_path, Mkdir CACHE,
               HttpGet ''https://example.org/foo-1.0.zip'', OpenWrite FOO_path],
      ticks = 0\<rparr>)"
  by (simp add: run_defs example_defs Let_def)


lemma example_dry_run:
  "main (example_env ''posix'' ''Darwin'' no_network) dryrun_flags (example_world used_checkout) =
   (Inr (),
    \<lparr>fs = used_checkout,
     stdout = [Line (MsgDownload (url QT6) QT6_path),
               Line (MsgVerificationFailed NINJA_MAC_path),
               Line (MsgDownload (url NINJA_MAC) NINJA_MAC_path),
               Line (MsgRmtree NINJA_DEST),
               Line (MsgExtracting ''ninja'' NINJA_MAC_path NINJA_DEST),
               Line (MsgSubprocessRun ''git submodule update --init --recursive'')],
     trace = [PathExists QT6_path, PathExists NINJA_MAC_path, PathStat NINJA_MAC_path,
              PathExists NINJA_DEST],
     ticks = 0\<rparr>)"
proof -
  let ?E = "example_env ''posix'' ''Darwin'' no_network"
  have q: "fs (example_world used_checkout) (cache_path ?E QT6) = None"
    by (simp add: cache_path_QT6 example_world_def used_checkout_def QT6_path_def CACHE_def
        NINJA_MAC_path_def NINJA_DEST_def)
  have 1: "download ?E QT6 True (example_world used_checkout) =
      (Inr (), \<lparr>fs = used_checkout, stdout = [Line (MsgDownload (url QT6) QT6_path)],
                trace = [PathExists QT6_path], ticks = 0\<rparr>)"
    unfolding download_absent[OF q] fetch_dry
    by (simp add: cache_path_QT6 example_world_def emit_def)
  have n: "fs \<lparr>fs = used_checkout, stdout = [Line (MsgDownload (url QT6) QT6_path)],
                trace = [PathExists QT6_path], ticks = 0\<rparr> (cache_path ?E NINJA_MAC) =
           Some (File [7, 7] 420)"
    by (simp add: cache_path_NINJA_MAC used_checkout_def NINJA_MAC_path_def NINJA_DEST_def)
  have sz: "size_bytes NINJA_MAC = 277298" by (simp add: NINJA_MAC_def)
  have s: "int (length [7, 7 :: byte]) \<noteq> size_bytes NINJA_MAC \<or>
           sha256_hex ?E [7, 7] \<noteq> sha256 NINJA_MAC"
    by (simp add: NINJA_MAC_def)
  have 2: "download ?E NINJA_MAC True
             \<lparr>fs = used_checkout, stdout = [Line (MsgDownload (url QT6) QT6_path)],
                trace = [PathExists QT6_path], ticks = 0\<rparr> =
      (Inr (), \<lparr>fs = used_checkout,
         stdout = [Line (MsgDownload (url QT6) QT6_path),
                   Line (MsgVerificationFailed NINJA_MAC_path),
                   Line (MsgDownload (url NINJA_MAC) NINJA_MAC_path)],
         trace = [PathExists QT6_path, PathExists NINJA_MAC_path, PathStat NINJA_MAC_path],
         ticks = 0\<rparr>)"
    unfolding download_stale_dry[OF n s]
    by (simp add: cache_path_NINJA_MAC sz)
  have m: "is_mac ?E \<or> is_windows ?E" by (simp add: is_mac_def example_env_fields)
  have nm: "is_mac ?E" "\<not> is_windows ?E"
    by (simp_all add: is_mac_def is_windows_def example_env_fields)
  have d: "node_at used_checkout NINJA_DEST \<noteq> None"
    by (simp add: node_at_def used_checkout_def NINJA_DEST_def)
  have c: "contains NINJA_MAC [QT6, NINJA_MAC]"
    by (simp add: contains_def archive_eq_def)
  show ?thesis
    unfolding main_def Let_def select_archives_mac
    by (simp add: dryrun_flags_def io_bind_def io_return_def 1 2 c
        extract_dry[OF m] update_dry nm dest_example cache_path_NINJA_MAC d)
qed

lemma mkdir_parents_fresh:
  "mkdir_parents [''mozc'', ''src'', ''third_party_cache''] Map.empty =
     Inr [[''mozc''] \<mapsto> Dir, [''mozc'', ''src''] \<mapsto> Dir,
          [''mozc'', ''src'', ''third_party_cache''] \<mapsto> Dir]"
  by (simp add: mkdir_parents.simps os_mkdir_def node_at_def)


lemma example_run_fresh:
  "download (example_env ''posix'' ''Linux'' (serving [[1], [2]])) FOO False
     (example_world Map.empty) =
   (Inl (RuntimeError (SizeMismatch ''foo-1.0.zip'' 3 2)),
    \<lparr>fs = [[''mozc''] \<mapsto> Dir, [''mozc'', ''src''] \<mapsto> Dir, CACHE \<mapsto> Dir,
            FOO_path \<mapsto> File [1, 2] 420], stdout = [],
      trace = [PathExists FOO_path, Mkdir CACHE,
               HttpGet ''https://example.org/foo-1.0.zip'', OpenWrite FOO_path],
      ticks = 0\<rparr>)"
  by (simp add: run_defs example_defs mkdir_parents_fresh Let_def)

lemma cache_path_NINJA_WIN: "cache_path (example_env n s net) NINJA_WIN = NINJA_WIN_path"
  by (simp add: cache_path_def filename_NINJA_WIN CACHE_DIR_example CACHE_def joinpath_def
      NINJA_WIN_path_def)

lemma example_dry_download_QT6:
  "download (example_env ''nt'' ''Windows'' no_network) QT6 True (example_world Map.empty) =
     (Inr (), \<lparr>fs = Map.empty, stdout = [Line (MsgDownload (url QT6) QT6_path)],
               trace = [PathExists QT6_path], ticks = 0\<rparr>)"
proof -
  let ?E = "example_env ''nt'' ''Windows'' no_network"
  have q: "fs (example_world Map.empty) (cache_path ?E QT6) = None"
    by (simp add: example_world_def)
  show ?thesis
    unfolding download_absent[OF q] fetch_dry
    by (simp add: cache_path_QT6 example_world_def emit_def)
qed

lemma example_dry_download_NINJA_WIN:
  "download (example_env ''nt'' ''Windows'' no_network) NINJA_WIN True
     \<lparr>fs = Map.empty, stdout = [Line (MsgDownload (url QT6) QT6_path)],
       trace = [PathExists QT6_path], ticks = 0\<rparr> =
   (Inr (), \<lparr>fs = Map.empty,
      stdout = [Line (MsgDownload (url QT6) QT6_path),
                Line (MsgDownload (url NINJA_WIN) NINJA_WIN_path)],
      trace = [PathExists QT6_path, PathExists NINJA_WIN_path],
      ticks = 0\<rparr>)"
proof -
  let ?E = "example_env ''nt'' ''Windows'' no_network"
  have n: "fs \<lparr>fs = Map.empty, stdout = [Line (MsgDownload (url QT6) QT6_path)],
                trace = [PathExists QT6_path], ticks = 0\<rparr> (cache_path ?E NINJA_WIN) = None"
    by simp
  show ?thesis
    unfolding download_absent[OF n] fetch_dry
    by (simp add: cache_path_NINJA_WIN emit_def)
qed

lemma example_cache_only_dry_run:
  "main (example_env ''nt'' ''Windows'' no_network) cache_only_dry_flags
     (example_world Map.empty) =
   (Inr (),
    \<lparr>fs = Map.empty,
     stdout = [Line (MsgDownload (url QT6) QT6_path),
               Line (MsgDownload (url NINJA_WIN) NINJA_WIN_path)],
     trace = [PathExists QT6_path, PathExists NINJA_WIN_path],
     ticks = 0\<rparr>)"
proof -
  let ?E = "example_env ''nt'' ''Windows'' no_network"
  have s: "select_archives ?E cache_only_dry_flags = [QT6, NINJA_WIN]"
    by (simp add: select_archives_def cache_only_dry_flags_def is_mac_def is_windows_def
        example_env_fields)
  have d: "dryrun cache_only_dry_flags" "cache_only cache_only_dry_flags"
    by (simp_all add: cache_only_dry_flags_def)
  show ?thesis
    unfolding main_def Let_def s
    by (simp add: d io_bind_def io_return_def example_dry_download_QT6 example_dry_download_NINJA_WIN)
qed

lemma example_full_dry_run_win:
  "main (example_env ''nt'' ''Windows'' no_network) (cache_only_dry_flags\<lparr>cache_only := False\<rparr>)
     (example_world Map.empty) =
   (Inr (),
    \<lparr>fs = Map.empty,
     stdout = [Line (MsgDownload (url QT6) QT6_path),
               Line (MsgDownload (url NINJA_WIN) NINJA_WIN_path),
               Line (MsgExecCommand [''dotnet'', ''tool'', ''restore''] [''mozc'', ''src'']),
               Line (MsgExtracting ''ninja.exe'' NINJA_WIN_path NINJA_DEST),
               Line (MsgSubprocessRun ''git submodule update --init --recursive'')],
     trace = [PathExists QT6_path, PathExists NINJA_WIN_path, PathExists NINJA_DEST],
     ticks = 0\<rparr>)"
proof -
  let ?E = "example_env ''nt'' ''Windows'' no_network"
  let ?F = "cache_only_dry_flags\<lparr>cache_only := False\<rparr>"
  have s: "select_archives ?E ?F = [QT6, NINJA_WIN]"
    by (simp add: select_archives_def cache_only_dry_flags_def is_mac_def is_windows_def
        example_env_fields)
  have d: "dryrun ?F" "\<not> cache_only ?F" "\<not> nowix ?F" "\<not> nosubmodules ?F"
    by (simp_all add: cache_only_dry_flags_def)
  have m: "is_mac ?E \<or> is_windows ?E" by (simp add: is_windows_def example_env_fields)
  have nm: "\<not> is_mac ?E" "is_windows ?E"
    by (simp_all add: is_mac_def is_windows_def example_env_fields)
  have c: "contains NINJA_WIN [QT6, NINJA_WIN]"
    by (simp add: contains_def archive_eq_def)
  have a: "ABS_MOZC_SRC_DIR ?E = [''mozc'', ''src'']"
    by (simp add: ABS_MOZC_SRC_DIR_def example_env_fields)
  show ?thesis
    unfolding main_def Let_def s
    by (simp add: d io_bind_def io_return_def example_dry_download_QT6 example_dry_download_NINJA_WIN c restore_dry a
        extract_dry[OF m] update_dry nm dest_example cache_path_NINJA_WIN node_at_def
        NINJA_DEST_def)
qed

lemma example_cache_only_bare_run:
  "main (example_env ''nt'' ''Windows'' no_network) cache_only_bare_flags
     (example_world Map.empty) = (Inr (), example_world Map.empty)"
  by (simp add: main_def Let_def select_archives_def cache_only_bare_flags_def io_bind_def
      io_return_def)

lemma example_bare_run:
  "main (example_env ''nt'' ''Windows'' no_network) (cache_only_bare_flags\<lparr>cache_only := False\<rparr>)
     (example_world Map.empty) =
   (Inr (),
    \<lparr>fs = Map.empty, stdout = [],
     trace = [Popen [''dotnet'', ''tool'', ''restore''] [''mozc'', ''src''],
              SubprocessRun ''git submodule update --init --recursive''],
     ticks = 0\<rparr>)"
  by (simp add: main_def Let_def select_archives_def cache_only_bare_flags_def io_bind_def
      io_return_def io_raise_def is_windows_def is_mac_def example_env_fields contains_def
      restore_dotnet_tools_def exec_command_def popen_wait_def update_submodules_def
      subprocess_run_def emit_def example_world_def ABS_MOZC_SRC_DIR_def)

section \<open>The claims\<close>

subsection \<open>C1: a stale cache entry is deleted and downloaded again\<close>

text \<open>
  Claim C1. For every archive whose cache file exists with a size different
  from the expected size or a SHA-256 different from the expected hash, a real
  (not dry-run) call of \<^verbatim>\<open>download\<close> deletes the stale file and downloads
  the archive again, and on normal return the cache entry has the expected size
  and the expected SHA-256.

  The file lies in the cache directory, so that directory exists: this is the
  third hypothesis, which a file system that is a tree gives with the first.
  The run is then determined by the answer of the transport. Its calls are the
  cache check (the file is read for its hash only when the sizes are equal),
  the unlink of the stale file, the creation of the cache directory, the
  request and, when the request is answered, the opening of the cache file for
  writing. The file system after the run is the one before it with the stale
  file removed when the request fails, and with the cache file holding the
  received bytes, in the mode of a newly created file, when the request is
  answered: the old contents and the old mode are gone in both cases. The
  result is the exception of the transport, the size mismatch, the hash
  mismatch or a normal return. On normal return the transport has completed and
  the cache file holds the received bytes, which have the expected size and the
  expected hash.
\<close>

theorem stale_entry_replaced:
  assumes "fs w (cache_path E a) = Some (File c m)"
      and "int (length c) \<noteq> size_bytes a \<or> sha256_hex E c \<noteq> sha256 a"
      and "node_at (fs w) (CACHE_DIR E) = Some Dir"
      and "download E a False w = (r, w')"
  shows "new_events w w' =
           [PathExists (cache_path E a), PathStat (cache_path E a)] @
           (if int (length c) = size_bytes a then [OpenRead (cache_path E a)] else []) @
           [PathUnlink (cache_path E a), Mkdir (CACHE_DIR E), HttpGet (url a)] @
           (case http E (url a) TIMEOUT of
              Inl s \<Rightarrow> [] | Inr resp \<Rightarrow> [OpenWrite (cache_path E a)]) \<and>
         fs w' =
           (case http E (url a) TIMEOUT of
              Inl s \<Rightarrow> (fs w)(cache_path E a := None)
            | Inr (Response cs fault) \<Rightarrow>
                (fs w)(cache_path E a \<mapsto> File (concat cs) (create_mode E))) \<and>
         r =
           (case http E (url a) TIMEOUT of
              Inl s \<Rightarrow> Inl (RequestException s)
            | Inr (Response cs fault) \<Rightarrow>
                (case fault of
                   Some s \<Rightarrow> Inl (RequestException s)
                 | None \<Rightarrow>
                     if int (length (concat cs)) \<noteq> size_bytes a
                     then Inl (RuntimeError (SizeMismatch (filename a) (size_bytes a)
                                               (int (length (concat cs)))))
                     else if sha256_hex E (concat cs) \<noteq> sha256 a
                     then Inl (RuntimeError (Sha256Mismatch (filename a) (sha256 a)
                                               (sha256_hex E (concat cs))))
                     else Inr ())) \<and>
         (r = Inr () \<longrightarrow>
            (\<exists>cs. http E (url a) TIMEOUT = Inr (Response cs None) \<and>
               fs w' (cache_path E a) = Some (File (concat cs) (create_mode E)) \<and>
               int (length (concat cs)) = size_bytes a \<and>
               sha256_hex E (concat cs) = sha256 a))"
proof -
  let ?p = "cache_path E a"
  let ?w1 = "w\<lparr>trace := trace w @ [PathExists ?p, PathStat ?p] @
                  (if int (length c) = size_bytes a then [OpenRead ?p] else []) @
                  [PathUnlink ?p],
                fs := (fs w)(?p := None)\<rparr>"
  from download_stale[OF assms(1,2)] assms(4) have f: "fetch E a False ?p ?w1 = (r, w')"
    by simp
  have ne: "CACHE_DIR E \<noteq> ?p" using assms(1,3) by (auto simp: node_at_def CACHE_DIR_nonempty)
  with assms(3) have dir: "node_at (fs ?w1) (CACHE_DIR E) = Some Dir"
    by (simp add: node_at_def CACHE_DIR_nonempty)
  have absent: "fs ?w1 ?p = None" by simp
  note F = fetch_in_cache[OF f dir absent]
  show ?thesis
  proof (cases "http E (url a) TIMEOUT")
    case (Inl s)
    with F show ?thesis by (simp add: new_events_def)
  next
    case (Inr resp)
    obtain cs fault where resp: "resp = Response cs fault" by (cases resp)
    show ?thesis
    proof (cases fault)
      case None
      with F Inr resp show ?thesis
        by (simp add: new_events_def verify_def io_raise_def io_return_def Let_def)
    next
      case (Some s)
      with F Inr resp show ?thesis by (simp add: new_events_def)
    qed
  qed
qed

text \<open>
  The second scenario of the specification, scaled down: a stale file of two
  bytes in mode 0600 where three bytes are expected. Without a network the
  request fails and the stale file is gone. With a server that sends the three
  bytes in two chunks the call returns normally and the cache file holds them
  in mode 0644.
\<close>

theorem stale_entry_replaced_witness:
  "fst (download (example_env ''posix'' ''Linux'' no_network) FOO False
         (example_world [CACHE \<mapsto> Dir, FOO_path \<mapsto> File [1, 2] 384])) =
     Inl (RequestException ''unreachable'') \<and>
   fs (snd (download (example_env ''posix'' ''Linux'' no_network) FOO False
         (example_world [CACHE \<mapsto> Dir, FOO_path \<mapsto> File [1, 2] 384]))) FOO_path = None \<and>
   fst (download (example_env ''posix'' ''Linux'' (serving [[1], [2, 3]])) FOO False
         (example_world [CACHE \<mapsto> Dir, FOO_path \<mapsto> File [1, 2] 384])) = Inr () \<and>
   fs (snd (download (example_env ''posix'' ''Linux'' (serving [[1], [2, 3]])) FOO False
         (example_world [CACHE \<mapsto> Dir, FOO_path \<mapsto> File [1, 2] 384]))) FOO_path =
     Some (File [1, 2, 3] 420) \<and>
   new_events (example_world [CACHE \<mapsto> Dir, FOO_path \<mapsto> File [1, 2] 384])
     (snd (download (example_env ''posix'' ''Linux'' (serving [[1], [2, 3]])) FOO False
         (example_world [CACHE \<mapsto> Dir, FOO_path \<mapsto> File [1, 2] 384]))) =
     [PathExists FOO_path, PathStat FOO_path, PathUnlink FOO_path, Mkdir CACHE,
      HttpGet ''https://example.org/foo-1.0.zip'', OpenWrite FOO_path]"
proof -
  let ?W = "example_world [CACHE \<mapsto> Dir, FOO_path \<mapsto> File [1, 2] 384]"
  let ?E = "example_env ''posix'' ''Linux'' no_network"
  let ?E' = "example_env ''posix'' ''Linux'' (serving [[1], [2, 3]])"
  have h1: "fs ?W (cache_path ?E FOO) = Some (File [1, 2] 384)"
    and h1': "fs ?W (cache_path ?E' FOO) = Some (File [1, 2] 384)"
    by (simp_all add: cache_path_FOO example_world_def)
  have h2: "int (length [1, 2 :: byte]) \<noteq> size_bytes FOO \<or> sha256_hex ?E [1, 2] \<noteq> sha256 FOO"
    and h2': "int (length [1, 2 :: byte]) \<noteq> size_bytes FOO \<or>
              sha256_hex ?E' [1, 2] \<noteq> sha256 FOO"
    by (simp_all add: FOO_fields)
  have h3: "node_at (fs ?W) (CACHE_DIR ?E) = Some Dir"
    and h3': "node_at (fs ?W) (CACHE_DIR ?E') = Some Dir"
    by (simp_all add: CACHE_DIR_example example_world_def node_at_def CACHE_def FOO_path_def)
  note A = stale_entry_replaced[OF h1 h2 h3 surjective_pairing]
  note B = stale_entry_replaced[OF h1' h2' h3' surjective_pairing]
  from A have a: "fst (download ?E FOO False ?W) = Inl (RequestException ''unreachable'')"
      "fs (snd (download ?E FOO False ?W)) FOO_path = None"
    by (simp_all add: example_env_fields no_network_def cache_path_FOO FOO_fields)
  from B have b: "fst (download ?E' FOO False ?W) = Inr ()"
      "fs (snd (download ?E' FOO False ?W)) FOO_path = Some (File [1, 2, 3] 420)"
      "new_events ?W (snd (download ?E' FOO False ?W)) =
         [PathExists FOO_path, PathStat FOO_path, PathUnlink FOO_path, Mkdir CACHE,
          HttpGet ''https://example.org/foo-1.0.zip'', OpenWrite FOO_path]"
    by (simp_all add: example_env_fields serving_def cache_path_FOO CACHE_DIR_example FOO_fields
        toy_sha256_def)
  from a b show ?thesis by blast
qed

subsection \<open>C2: a valid cache entry is a cache hit\<close>

text \<open>
  Claim C2. For every archive whose cache file exists with the expected size
  and the expected SHA-256, \<^verbatim>\<open>download\<close> returns at once, makes no request
  and changes nothing in the file system, for both values of the dry-run flag.

  The call returns normally, and the world after it is the world before it with
  three calls added to the trace: exists, stat and the read for the hash, all
  on the cache file. So the file system and the standard output are as before,
  and no request is among the calls.
\<close>

theorem download_cache_hit:
  assumes "fs w (cache_path E a) = Some (File c m)"
      and "int (length c) = size_bytes a"
      and "sha256_hex E c = sha256 a"
  shows "download E a d w =
           (Inr (), w\<lparr>trace := trace w @
              [PathExists (cache_path E a), PathStat (cache_path E a),
               OpenRead (cache_path E a)]\<rparr>) \<and>
         fs (snd (download E a d w)) = fs w \<and>
         stdout (snd (download E a d w)) = stdout w \<and>
         (\<forall>u. HttpGet u \<notin> set (new_events w (snd (download E a d w))))"
  using download_valid[OF assms] by (simp add: new_events_def)

text \<open>
  A cache that holds the three expected bytes, with no network at all.
\<close>

theorem download_cache_hit_witness:
  "download (example_env ''posix'' ''Linux'' no_network) FOO False
     (example_world [FOO_path \<mapsto> File [1, 2, 3] 420]) =
   (Inr (), \<lparr>fs = [FOO_path \<mapsto> File [1, 2, 3] 420], stdout = [],
             trace = [PathExists FOO_path, PathStat FOO_path, OpenRead FOO_path], ticks = 0\<rparr>)"
  using download_cache_hit[of "example_world [FOO_path \<mapsto> File [1, 2, 3] 420]"
      "example_env ''posix'' ''Linux'' no_network" FOO "[1, 2, 3]" 420 False]
  by (simp add: cache_path_FOO example_world_def example_env_fields toy_sha256_def FOO_fields)

subsection \<open>C3: the size check precedes the hash check\<close>




subsection \<open>C4: an integrity error leaves the file on disk\<close>

text \<open>
  Claim C4. Whenever \<^verbatim>\<open>download\<close> raises an integrity error (size or hash
  mismatch after the stream completed), the file that this invocation wrote is
  left on disk: the error path deletes nothing, and the file is removed by the
  cache check of a later invocation.

  Such a run is a real run whose stream completed. After it the cache file
  holds every byte that was received; the last three calls of the invocation are
  the creation of the cache directory, the request and the opening of the file
  for writing, so nothing, and no unlink in particular, follows the download.
  The next real invocation, started in the state the failed one left, begins
  with the cache check and then unlinks that file.
\<close>

theorem integrity_error_leaves_file:
  assumes "download E a d w = (Inl (RuntimeError ie), w')"
  shows "\<not> d \<and>
         (\<exists>cs m pre. http E (url a) TIMEOUT = Inr (Response cs None) \<and>
            fs w' (cache_path E a) = Some (File (concat cs) m) \<and>
            new_events w w' =
              pre @ [Mkdir (CACHE_DIR E), HttpGet (url a), OpenWrite (cache_path E a)] \<and>
            (\<exists>post. new_events w' (snd (download E a False w')) =
               [PathExists (cache_path E a), PathStat (cache_path E a)] @
               (if int (length (concat cs)) = size_bytes a
                then [OpenRead (cache_path E a)] else []) @
               [PathUnlink (cache_path E a)] @ post))"
proof -
  let ?p = "cache_path E a"
  from download_integrity_error[OF assms] obtain cs m pre where
    d: "\<not> d" and h: "http E (url a) TIMEOUT = Inr (Response cs None)"
    and f: "fs w' ?p = Some (File (concat cs) m)"
    and t: "new_events w w' = pre @ [Mkdir (CACHE_DIR E), HttpGet (url a), OpenWrite ?p]"
    and ie: "if int (length (concat cs)) \<noteq> size_bytes a
            then ie = SizeMismatch (filename a) (size_bytes a) (int (length (concat cs)))
            else sha256_hex E (concat cs) \<noteq> sha256 a \<and>
                 ie = Sha256Mismatch (filename a) (sha256 a) (sha256_hex E (concat cs))"
    by blast
  from ie have st: "int (length (concat cs)) \<noteq> size_bytes a \<or>
                    sha256_hex E (concat cs) \<noteq> sha256 a"
    by (auto split: if_splits)
  let ?w1 = "w'\<lparr>trace := trace w' @ [PathExists ?p, PathStat ?p] @
                  (if int (length (concat cs)) = size_bytes a then [OpenRead ?p] else []) @
                  [PathUnlink ?p],
                fs := (fs w')(?p := None)\<rparr>"
  obtain r2 w2 where again: "download E a False w' = (r2, w2)"
    by (cases "download E a False w'")
  with download_stale[OF f st] have "fetch E a False ?p ?w1 = (r2, w2)" by simp
  from fetch_trace[OF this] obtain post where "trace w2 = trace ?w1 @ post" by blast
  with again have "new_events w' (snd (download E a False w')) =
               [PathExists ?p, PathStat ?p] @
               (if int (length (concat cs)) = size_bytes a then [OpenRead ?p] else []) @
               [PathUnlink ?p] @ post"
    by (simp add: new_events_def)
  with d h f t show ?thesis by blast
qed

text \<open>
  The run that receives two bytes instead of three: both bytes are in the cache
  file after the size-mismatch error.
\<close>

theorem integrity_error_leaves_file_witness:
  "fst (download (example_env ''posix'' ''Linux'' (serving [[1], [2]])) FOO False
         (example_world [CACHE \<mapsto> Dir])) =
     Inl (RuntimeError (SizeMismatch ''foo-1.0.zip'' 3 2)) \<and>
   (\<exists>cs m. http (example_env ''posix'' ''Linux'' (serving [[1], [2]])) (url FOO) TIMEOUT =
       Inr (Response cs None) \<and>
     fs (snd (download (example_env ''posix'' ''Linux'' (serving [[1], [2]])) FOO False
               (example_world [CACHE \<mapsto> Dir])))
        (cache_path (example_env ''posix'' ''Linux'' (serving [[1], [2]])) FOO) =
       Some (File (concat cs) m))"
proof -
  from integrity_error_leaves_file[OF example_run_short]
  have "\<exists>cs m. http (example_env ''posix'' ''Linux'' (serving [[1], [2]])) (url FOO) TIMEOUT =
       Inr (Response cs None) \<and>
     fs \<lparr>fs = [CACHE \<mapsto> Dir, FOO_path \<mapsto> File [1, 2] 420], stdout = [],
         trace = [PathExists FOO_path, Mkdir CACHE,
                  HttpGet ''https://example.org/foo-1.0.zip'', OpenWrite FOO_path],
         ticks = 0\<rparr>
        (cache_path (example_env ''posix'' ''Linux'' (serving [[1], [2]])) FOO) =
       Some (File (concat cs) m)"
    by blast
  then show ?thesis unfolding example_run_short by simp
qed

subsection \<open>C5: a dry run changes nothing and reports every action\<close>

text \<open>
  Claim C5. For every combination of the flags, \<^verbatim>\<open>main\<close> with the dry-run
  flag set makes no request, changes nothing in the file system (no file
  deleted, written or created, no directory created or removed, no permission
  bit changed) and starts no child process, and it prints one message for each
  action it would have taken.

  After the run the file system and the clock are as before. The calls of the
  run are exists, stat and open-for-reading only, so there is no request, no
  unlink, mkdir, write, extraction or chmod, and no child process. Everything
  written to standard output is a message line. When the run returns normally,
  the messages are, in order, the announcements of the actions that the
  specification plans for these flags, this platform and this file system, one
  message for each action. An action is a step that the specification names;
  the chmod that follows the extraction on macOS belongs to the extraction.

  A dry run fails only when a cache entry is a directory whose reported size is
  the expected one (the read for the hash raises); the first four statements
  hold for that run too.
\<close>

theorem dry_run_only_reports:
  assumes "dryrun args" and "main E args w = (r, w')"
  shows "fs w' = fs w \<and> ticks w' = ticks w \<and>
         trace w' = trace w @ new_events w w' \<and>
         (\<forall>e \<in> set (new_events w w'). read_only_event e) \<and>
         (\<exists>ms. stdout w' = stdout w @ map Line ms) \<and>
         (r = Inr () \<longrightarrow>
            new_output w w' = map (\<lambda>act. Line (announce act)) (spec_plan E args (fs w)))"
proof -
  let ?loop = "for_each (\<lambda>archive. download E archive True) (select_archives E args)"
  let ?tail = "if cache_only args then io_return ()
        else
          io_bind (if \<not> nowix args \<and> is_windows E then restore_dotnet_tools E True
                   else io_return ()) (\<lambda>u.
            io_bind (if \<not> noninja args \<and> (is_mac E \<or> is_windows E)
                     then extract_ninja E True
                     else io_return ()) (\<lambda>u.
              if \<not> nosubmodules args then update_submodules E True
              else io_return ()))"
  from assms(1) have d: "dryrun args = True" by simp
  have "main E args = io_bind ?loop (\<lambda>u. ?tail)"
    by (simp add: main_def Let_def d ninja_selected)
  with assms(2) have run: "io_bind ?loop (\<lambda>u. ?tail) w = (r, w')" by simp
  obtain r1 w1 where loop: "?loop w = (r1, w1)" by (cases "?loop w")
  from for_each_dry_reports[OF loop] obtain ms where
    ms: "reports w w1 ms"
        "r1 = Inr () \<longrightarrow>
           ms = map announce (concat (map (spec_plan_download E (fs w)) (select_archives E args)))"
    by blast
  have "\<exists>ns. reports w w' ns \<and> (r = Inr () \<longrightarrow> ns = map announce (spec_plan E args (fs w)))"
  proof (cases r1)
    case (Inl e)
    with loop have "?loop w = (Inl e, w1)" by simp
    from run have "r = Inl e" "w' = w1"
      unfolding io_bind_Inl[where m="?loop" and w=w, OF \<open>?loop w = (Inl e, w1)\<close>] by simp_all
    with ms show ?thesis by auto
  next
    case (Inr u)
    from ms(1) have f1: "fs w1 = fs w" by (simp add: reports_def)
    from loop Inr have "?loop w = (Inr u, w1)" by simp
    from run have tail: "?tail w1 = (r, w')"
      unfolding io_bind_Inr[where m="?loop" and w=w, OF \<open>?loop w = (Inr u, w1)\<close>] .
    let ?rest = "\<lambda>f. if cache_only args then []
      else
        (if \<not> nowix args \<and> is_windows E
         then [RestoreTools [''dotnet'', ''tool'', ''restore''] (ABS_MOZC_SRC_DIR E)] else []) @
        (if \<not> noninja args \<and> (is_mac E \<or> is_windows E)
         then (if node_at f (joinpath (ABS_THIRD_PARTY_DIR E) ''ninja'') \<noteq> None
               then [RemoveDestination (joinpath (ABS_THIRD_PARTY_DIR E) ''ninja'')] else []) @
              [if is_mac E
               then ExtractTool ''ninja'' (cache_path E NINJA_MAC)
                      (joinpath (ABS_THIRD_PARTY_DIR E) ''ninja'')
               else ExtractTool ''ninja.exe'' (cache_path E NINJA_WIN)
                      (joinpath (ABS_THIRD_PARTY_DIR E) ''ninja'')]
         else []) @
        (if \<not> nosubmodules args
         then [SyncSubmodules ''git submodule update --init --recursive''] else [])"
    from dry_tail_reports[OF tail] have ok: "r = Inr ()"
      and rep: "reports w1 w' (map announce (?rest (fs w1)))" by blast+
    from rep have rep': "reports w1 w' (map announce (?rest (fs w)))" unfolding f1 .
    have plan: "spec_plan E args (fs w) =
        concat (map (spec_plan_download E (fs w)) (select_archives E args)) @ ?rest (fs w)"
      unfolding spec_plan_def ..
    from ms(2) Inr have "ms = map announce
        (concat (map (spec_plan_download E (fs w)) (select_archives E args)))" by simp
    then have "ms @ map announce (?rest (fs w)) = map announce (spec_plan E args (fs w))"
      unfolding plan by (simp only: map_append)
    with reports_trans[OF ms(1) rep'] have "reports w w' (map announce (spec_plan E args (fs w)))"
      by (simp only:)
    then show ?thesis by blast
  qed
  then obtain ns where ns: "reports w w' ns"
      "r = Inr () \<longrightarrow> ns = map announce (spec_plan E args (fs w))" by blast
  from ns(1) obtain es where es: "trace w' = trace w @ es" "\<forall>e \<in> set es. read_only_event e"
    and rest: "fs w' = fs w" "ticks w' = ticks w" "stdout w' = stdout w @ map Line ns"
    unfolding reports_def by blast
  from es rest ns(2) show ?thesis
    by (auto simp: new_events_def new_output_def comp_def)
qed

text \<open>
  A dry run on macOS with a stale ninja archive in the cache and an old
  destination directory: six messages, four reading calls, the same files.
\<close>

theorem dry_run_only_reports_witness:
  "fs (snd (main (example_env ''posix'' ''Darwin'' no_network) dryrun_flags
             (example_world used_checkout))) = used_checkout \<and>
   list_all read_only_event
     (new_events (example_world used_checkout)
        (snd (main (example_env ''posix'' ''Darwin'' no_network) dryrun_flags
               (example_world used_checkout)))) \<and>
   new_output (example_world used_checkout)
     (snd (main (example_env ''posix'' ''Darwin'' no_network) dryrun_flags
            (example_world used_checkout))) =
     map (\<lambda>act. Line (announce act))
       (spec_plan (example_env ''posix'' ''Darwin'' no_network) dryrun_flags used_checkout)"
proof -
  have "dryrun dryrun_flags" by (simp add: dryrun_flags_def)
  from dry_run_only_reports[OF this example_dry_run]
  show ?thesis unfolding example_dry_run by (simp add: example_world_def list_all_iff)
qed

subsection \<open>C6: cache-only stops after the downloads\<close>

text \<open>
  Claim C6. Whenever the cache-only flag is set, \<^verbatim>\<open>main\<close> stops after the
  download and verification of the selected archives: the restore of the
  secondary toolchain, the extraction and the update of the submodules are
  skipped, whatever the other flags are (also when the no-submodules flag is
  false).

  The run is the loop of the downloads and nothing else. None of its calls is a
  call of the three later steps (a child process, the opening of a zip archive,
  an extraction, a chmod) and none of its output is a message of those steps.
\<close>

theorem cache_only_stops_after_downloads:
  assumes "cache_only args" and "main E args w = (r, w')"
  shows "main E args w =
           for_each (\<lambda>archive. download E archive (dryrun args)) (select_archives E args) w \<and>
         (\<forall>e \<in> set (new_events w w'). \<not> provisioning_event e) \<and>
         (\<forall>x \<in> set (new_output w w'). \<not> provisioning_output x)"
proof -
  from assms(1) have eq: "main E args w =
      for_each (\<lambda>archive. download E archive (dryrun args)) (select_archives E args) w"
    by (simp add: main_def Let_def io_bind_return)
  with assms(2) have "downloads_only w w'" by (simp add: for_each_downloads_only)
  then have "(\<forall>e \<in> set (new_events w w'). \<not> provisioning_event e) \<and>
             (\<forall>x \<in> set (new_output w w'). \<not> provisioning_output x)"
    unfolding downloads_only_def new_events_def new_output_def by auto
  with eq show ?thesis by blast
qed

text \<open>
  On Windows, where all three later steps would run. A dry run with the
  cache-only flag announces the two downloads and stops; the same dry run
  without the flag goes on to announce the restore, the extraction and the
  update of the submodules. A real run with \<^verbatim>\<open>--noqt --noninja --cache_only\<close>
  has nothing to download and returns with the world unchanged; without the
  flag it starts \<^verbatim>\<open>dotnet\<close> and \<^verbatim>\<open>git\<close>.
\<close>

theorem cache_only_stops_after_downloads_witness:
  "main (example_env ''nt'' ''Windows'' no_network) cache_only_dry_flags
     (example_world Map.empty) =
   (Inr (),
    \<lparr>fs = Map.empty,
     stdout = [Line (MsgDownload (url QT6) QT6_path),
               Line (MsgDownload (url NINJA_WIN) NINJA_WIN_path)],
     trace = [PathExists QT6_path, PathExists NINJA_WIN_path],
     ticks = 0\<rparr>) \<and>
   list_all (\<lambda>e. \<not> provisioning_event e)
     (new_events (example_world Map.empty)
        (snd (main (example_env ''nt'' ''Windows'' no_network) cache_only_dry_flags
               (example_world Map.empty)))) \<and>
   list_all (\<lambda>x. \<not> provisioning_output x)
     (new_output (example_world Map.empty)
        (snd (main (example_env ''nt'' ''Windows'' no_network) cache_only_dry_flags
               (example_world Map.empty)))) \<and>
   new_output (example_world Map.empty)
     (snd (main (example_env ''nt'' ''Windows'' no_network)
             (cache_only_dry_flags\<lparr>cache_only := False\<rparr>) (example_world Map.empty))) =
     [Line (MsgDownload (url QT6) QT6_path),
      Line (MsgDownload (url NINJA_WIN) NINJA_WIN_path),
      Line (MsgExecCommand [''dotnet'', ''tool'', ''restore''] [''mozc'', ''src'']),
      Line (MsgExtracting ''ninja.exe'' NINJA_WIN_path NINJA_DEST),
      Line (MsgSubprocessRun ''git submodule update --init --recursive'')] \<and>
   main (example_env ''nt'' ''Windows'' no_network) cache_only_bare_flags
     (example_world Map.empty) = (Inr (), example_world Map.empty) \<and>
   new_events (example_world Map.empty)
     (snd (main (example_env ''nt'' ''Windows'' no_network)
             (cache_only_bare_flags\<lparr>cache_only := False\<rparr>) (example_world Map.empty))) =
     [Popen [''dotnet'', ''tool'', ''restore''] [''mozc'', ''src''],
      SubprocessRun ''git submodule update --init --recursive'']"
proof -
  let ?E = "example_env ''nt'' ''Windows'' no_network"
  let ?W = "example_world Map.empty"
  have c: "cache_only cache_only_dry_flags" by (simp add: cache_only_dry_flags_def)
  have b: "cache_only cache_only_bare_flags" by (simp add: cache_only_bare_flags_def)
  note T = cache_only_stops_after_downloads[OF c surjective_pairing, of ?E ?W]
  note U = cache_only_stops_after_downloads[OF b example_cache_only_bare_run]
  from T have 1: "list_all (\<lambda>e. \<not> provisioning_event e)
       (new_events ?W (snd (main ?E cache_only_dry_flags ?W)))"
    and 2: "list_all (\<lambda>x. \<not> provisioning_output x)
       (new_output ?W (snd (main ?E cache_only_dry_flags ?W)))"
    by (simp_all add: list_all_iff)
  have 3: "new_output ?W
     (snd (main ?E (cache_only_dry_flags\<lparr>cache_only := False\<rparr>) ?W)) =
     [Line (MsgDownload (url QT6) QT6_path),
      Line (MsgDownload (url NINJA_WIN) NINJA_WIN_path),
      Line (MsgExecCommand [''dotnet'', ''tool'', ''restore''] [''mozc'', ''src'']),
      Line (MsgExtracting ''ninja.exe'' NINJA_WIN_path NINJA_DEST),
      Line (MsgSubprocessRun ''git submodule update --init --recursive'')]"
    unfolding example_full_dry_run_win by (simp add: new_output_def example_world_def)
  have 4: "new_events ?W
     (snd (main ?E (cache_only_bare_flags\<lparr>cache_only := False\<rparr>) ?W)) =
     [Popen [''dotnet'', ''tool'', ''restore''] [''mozc'', ''src''],
      SubprocessRun ''git submodule update --init --recursive'']"
    unfolding example_bare_run by (simp add: new_events_def example_world_def)
  from U have 5: "main ?E cache_only_bare_flags ?W = (Inr (), ?W)"
    by (simp add: example_cache_only_bare_run)
  from example_cache_only_dry_run 1 2 3 5 4 show ?thesis by (intro conjI)
qed

subsection \<open>C7: the extraction does not empty its destination\<close>

text \<open>
  Claim C7 says that every real extraction replaces the destination directory,
  so that it holds only the newly extracted tool afterwards. The real branch of
  \<^verbatim>\<open>extract_ninja\<close> extracts the member and sets the execute bit, and
  removes nothing: on macOS, with a file of an earlier version in
  \<^verbatim>\<open>third_party/ninja\<close>, the call returns normally and the destination holds
  the old file next to the new \<^verbatim>\<open>ninja\<close> (mode \<^verbatim>\<open>0o744\<close>). The dry run on
  the same input reports \<^verbatim>\<open>shutil.rmtree\<close> of the destination before the
  extraction: the removal the real branch lacks.
\<close>

theorem extract_ninja_keeps_old_contents:
  "fst (extract_ninja (example_env ''posix'' ''Darwin'' no_network) False
          (example_world used_checkout)) = Inr () \<and>
   fs (snd (extract_ninja (example_env ''posix'' ''Darwin'' no_network) False
          (example_world used_checkout))) =
     [CACHE \<mapsto> Dir,
      NINJA_MAC_path \<mapsto> File [7, 7] 420,
      NINJA_DEST \<mapsto> Dir,
      NINJA_DEST @ [''ninja-1.10.2.txt''] \<mapsto> File [5] 420,
      NINJA_DEST @ [''ninja''] \<mapsto> File [9] 484] \<and>
   stdout (snd (extract_ninja (example_env ''posix'' ''Darwin'' no_network) True
          (example_world used_checkout))) =
     [Line (MsgRmtree NINJA_DEST), Line (MsgExtracting ''ninja'' NINJA_MAC_path NINJA_DEST)]"
  by (simp add: extract_defs run_defs cache_path_NINJA_MAC dest_example ABS_THIRD_PARTY_DIR_example
      example_env_fields
      example_world_def used_checkout_def NINJA_DEST_def NINJA_MAC_path_def
      CACHE_def joinpath_def Let_def)

subsection \<open>C8: what makes two ArchiveInfo records equal\<close>

text \<open>
  Claim C8 says that two ArchiveInfo records with the same SHA-256 are the same
  archive for the membership checks of \<^verbatim>\<open>main\<close>, also with different
  URLs. The class defines \<^verbatim>\<open>__hash__\<close> only; its \<^verbatim>\<open>__eq__\<close> is the one
  of the dataclass, which compares every field, and \<^verbatim>\<open>in\<close> on a list uses
  \<^verbatim>\<open>__eq__\<close>. The Windows ninja archive offered under another URL has the
  same SHA-256, is not equal to \<^verbatim>\<open>NINJA_WIN\<close> and is not found by
  \<^verbatim>\<open>NINJA_WIN in archives\<close>.
\<close>

theorem archive_identity_counterexample:
  "sha256 MIRROR = sha256 NINJA_WIN \<and> \<not> archive_eq NINJA_WIN MIRROR \<and>
   \<not> contains NINJA_WIN [MIRROR]"
  by (simp add: MIRROR_def NINJA_WIN_def archive_eq_def contains_def)

text \<open>
  Claim C8, amended. For every pair of ArchiveInfo records the hash value is
  determined by the content hash alone: two records with the same SHA-256 have
  the same hash value, also when they were constructed separately with
  different URLs or file names. Equality, and with it the membership check of
  \<^verbatim>\<open>main\<close>, compares the three fields url, size and sha256. Among the three
  registered archives, whose SHA-256 values differ, two records are equal
  exactly when their SHA-256 values are equal.
\<close>

theorem archive_identity:
  "(sha256 a = sha256 b \<longrightarrow> archive_hash str_hash a = archive_hash str_hash b) \<and>
   (archive_eq a b \<longleftrightarrow> url a = url b \<and> size_bytes a = size_bytes b \<and> sha256 a = sha256 b) \<and>
   (contains a xs \<longleftrightarrow>
      (\<exists>b \<in> set xs. url a = url b \<and> size_bytes a = size_bytes b \<and> sha256 a = sha256 b)) \<and>
   (a \<in> {QT6, NINJA_MAC, NINJA_WIN} \<and> b \<in> {QT6, NINJA_MAC, NINJA_WIN} \<longrightarrow>
      (archive_eq a b \<longleftrightarrow> sha256 a = sha256 b))"
proof -
  have "a \<in> {QT6, NINJA_MAC, NINJA_WIN} \<and> b \<in> {QT6, NINJA_MAC, NINJA_WIN} \<longrightarrow>
      (archive_eq a b \<longleftrightarrow> sha256 a = sha256 b)"
    by (auto simp: archive_eq_def QT6_def NINJA_MAC_def NINJA_WIN_def)
  then show ?thesis
    by (simp add: archive_hash_def archive_eq_def contains_def list_ex_iff)
qed

text \<open>
  The registered Windows archive and its copy under another URL have the same
  hash value; two registered archives are compared by their SHA-256.
\<close>

theorem archive_identity_witness:
  "archive_hash (\<lambda>s. int (length s)) NINJA_WIN = archive_hash (\<lambda>s. int (length s)) MIRROR \<and>
   (archive_eq NINJA_MAC NINJA_WIN \<longleftrightarrow> sha256 NINJA_MAC = sha256 NINJA_WIN)"
proof -
  have same: "sha256 NINJA_WIN = sha256 MIRROR" by (simp add: MIRROR_def)
  have reg: "NINJA_MAC \<in> {QT6, NINJA_MAC, NINJA_WIN} \<and> NINJA_WIN \<in> {QT6, NINJA_MAC, NINJA_WIN}"
    by simp
  from archive_identity[of NINJA_WIN MIRROR "\<lambda>s. int (length s)" "[]"] same
  have 1: "archive_hash (\<lambda>s. int (length s)) NINJA_WIN =
           archive_hash (\<lambda>s. int (length s)) MIRROR" by blast
  from archive_identity[of NINJA_MAC NINJA_WIN "\<lambda>s. int (length s)" "[]"] reg
  have 2: "archive_eq NINJA_MAC NINJA_WIN \<longleftrightarrow> sha256 NINJA_MAC = sha256 NINJA_WIN" by blast
  from 1 2 show ?thesis by blast
qed

subsection \<open>C9: no extraction on other platforms\<close>

text \<open>
  Claim C9. On every platform that is neither Windows nor macOS,
  \<^verbatim>\<open>extract_ninja\<close> returns at once, for both values of the dry-run flag:
  it returns normally and leaves the world as it was, so it makes no call to the
  file system and prints no message.
\<close>

theorem extract_ninja_other_platform:
  assumes "\<not> is_windows E" and "\<not> is_mac E"
  shows "extract_ninja E d w = (Inr (), w)"
  using assms by (simp add: extract_ninja_def io_return_def)

text \<open>
  Linux, with and without the dry-run flag.
\<close>

theorem extract_ninja_other_platform_witness:
  "extract_ninja (example_env ''posix'' ''Linux'' no_network) True (example_world Map.empty) =
     (Inr (), example_world Map.empty) \<and>
   extract_ninja (example_env ''posix'' ''Linux'' no_network) False (example_world Map.empty) =
     (Inr (), example_world Map.empty)"
  using extract_ninja_other_platform[of "example_env ''posix'' ''Linux'' no_network" True
          "example_world Map.empty"]
        extract_ninja_other_platform[of "example_env ''posix'' ''Linux'' no_network" False
          "example_world Map.empty"]
  by (simp add: is_windows_def is_mac_def example_env_fields)

subsection \<open>C10: a wrong size short-circuits the hash\<close>

text \<open>
  Claim C10. For every archive whose cache file exists with a size different
  from the expected size, the cache check of \<^verbatim>\<open>download\<close> takes the entry
  for stale without computing its SHA-256: the file is read and hashed only
  when the size already matches.

  With a cache file of another size, no file is opened for reading during the
  whole call, and the entry is treated as stale: a dry run makes the exists and
  stat calls only and prints the two messages of a stale entry; a real run
  makes the exists and stat calls and then unlinks the file. Conversely, in
  every run of \<^verbatim>\<open>download\<close>, a file opened for reading is the cache file,
  and stat reported the expected size for it.
\<close>

theorem size_mismatch_skips_hash:
  assumes "download E a d w = (r, w')"
  shows "(\<forall>c m. fs w (cache_path E a) = Some (File c m) \<and> int (length c) \<noteq> size_bytes a \<longrightarrow>
            (\<forall>q. OpenRead q \<notin> set (new_events w w')) \<and>
            (if d
             then new_events w w' = [PathExists (cache_path E a), PathStat (cache_path E a)] \<and>
                  new_output w w' = [Line (MsgVerificationFailed (cache_path E a)),
                                     Line (MsgDownload (url a) (cache_path E a))]
             else take 3 (new_events w w') =
                    [PathExists (cache_path E a), PathStat (cache_path E a),
                     PathUnlink (cache_path E a)])) \<and>
         (\<forall>q. OpenRead q \<in> set (new_events w w') \<longrightarrow>
            q = cache_path E a \<and>
            (\<exists>st. fst (path_stat E (cache_path E a) w) = Inr st \<and> st_size st = size_bytes a))"
  using assms
proof (cases rule: download_elim)
  case absent
  from fetch_trace[OF absent(2)] absent(1) show ?thesis
    by (auto simp: new_events_def emit_def)
next
  case (hit c m)
  then show ?thesis
    by (simp add: new_events_def path_stat_def node_at_nonempty cache_path_nonempty)
next
  case (stale_dry c m)
  then show ?thesis
    by (simp add: new_events_def new_output_def path_stat_def node_at_nonempty
        cache_path_nonempty)
next
  case (stale c m)
  from fetch_trace[OF stale(4)] stale(1,2,3) show ?thesis
    by (auto simp: new_events_def path_stat_def node_at_nonempty cache_path_nonempty)
next
  case dir
  then show ?thesis
    by (auto simp: new_events_def path_stat_def node_at_nonempty cache_path_nonempty
        split: if_splits)
qed

text \<open>
  A cache file of two bytes is never read; one of three bytes with another hash
  is read, after stat reported the size 3.
\<close>

theorem size_mismatch_skips_hash_witness:
  "(\<forall>q. OpenRead q \<notin> set (new_events
       (example_world [CACHE \<mapsto> Dir, FOO_path \<mapsto> File [1, 2] 420])
       (snd (download (example_env ''posix'' ''Linux'' (serving [[1], [2, 3]])) FOO False
              (example_world [CACHE \<mapsto> Dir, FOO_path \<mapsto> File [1, 2] 420]))))) \<and>
   (\<exists>st. fst (path_stat (example_env ''posix'' ''Linux'' no_network) FOO_path
              (example_world [CACHE \<mapsto> Dir, FOO_path \<mapsto> File [9, 9, 9] 420])) = Inr st \<and>
         st_size st = 3)"
proof -
  let ?E = "example_env ''posix'' ''Linux'' (serving [[1], [2, 3]])"
  let ?W = "example_world [CACHE \<mapsto> Dir, FOO_path \<mapsto> File [1, 2] 420]"
  let ?E' = "example_env ''posix'' ''Linux'' no_network"
  let ?W' = "example_world [CACHE \<mapsto> Dir, FOO_path \<mapsto> File [9, 9, 9] 420]"
  have "fs ?W (cache_path ?E FOO) = Some (File [1, 2] 420) \<and>
        int (length [1, 2 :: byte]) \<noteq> size_bytes FOO"
    by (simp add: example_defs)
  with size_mismatch_skips_hash[OF example_run_stale]
  have 1: "\<forall>q. OpenRead q \<notin> set (new_events ?W (snd (download ?E FOO False ?W)))"
    by (simp add: example_run_stale)
  have "OpenRead FOO_path \<in> set (new_events ?W'
           \<lparr>fs = [CACHE \<mapsto> Dir, FOO_path \<mapsto> File [9, 9, 9] 420],
            stdout = [Line (MsgVerificationFailed FOO_path),
                      Line (MsgDownload ''https://example.org/foo-1.0.zip'' FOO_path)],
            trace = [PathExists FOO_path, PathStat FOO_path, OpenRead FOO_path],
            ticks = 0\<rparr>)"
    by (simp add: new_events_def example_world_def)
  with size_mismatch_skips_hash[OF example_run_same_size_dry]
  have "\<exists>st. fst (path_stat ?E' (cache_path ?E' FOO) ?W') = Inr st \<and>
             st_size st = size_bytes FOO"
    by blast
  then have 2: "\<exists>st. fst (path_stat ?E' FOO_path ?W') = Inr st \<and> st_size st = 3"
    by (simp add: cache_path_FOO FOO_fields)
  from 1 2 show ?thesis by blast
qed

end
